theory Spec2Isabelle
  imports Complex_Main "HOL-Library.Log_Nat"
begin

section \<open>Values\<close>

text \<open>
  Every value the program handles comes out of \<^verbatim>\<open>r.json()\<close> or is a string or
  \<^verbatim>\<open>None\<close>, so one datatype of JSON-shaped Python values serves for all of them.
  \<^verbatim>\<open>None\<close> is \<open>JNull\<close>. A \<^verbatim>\<open>dict\<close> keeps its insertion order, which \<^verbatim>\<open>values()\<close>
  exposes, so it is an association list; \<^verbatim>\<open>json\<close> never builds a dict with a repeated
  key. A finite float is represented by the real number it denotes.

  A character of the model is a code point below 256, so a \<open>string\<close> stands for a
  Python \<^verbatim>\<open>str\<close> whose code points are all below 256.
\<close>

datatype json =
    JNull
  | JBool bool
  | JInt int
  | JFloat real
  | JStr string
  | JArr "json list"
  | JObj "(string \<times> json) list"

text \<open>
  The pieces of an f-string: literal text, a value formatted by \<^verbatim>\<open>str\<close>, and a value
  serialised by \<^verbatim>\<open>json.dumps\<close>. Literal characters above code point 255 (the
  ellipsis and the pictographs of the progress messages) are left out of the text.
\<close>

datatype frag = Lit string | Val json | Dumps json

text \<open>
  The exceptions. \<open>RuntimeError\<close>, \<open>TimeoutError\<close> and \<open>ValueError\<close> are raised by the
  program with a message (\<open>ValueError\<close> also by \<^verbatim>\<open>time.sleep\<close>); \<open>HTTPError\<close> stands
  for whatever a request raises (\<^verbatim>\<open>raise_for_status\<close>, a connection error, an
  undecodable body); \<open>OSError\<close> is raised when the operating system refuses a call;
  the others are raised by Python's own operations.
\<close>

datatype exn =
    RuntimeError "frag list"
  | TimeoutError "frag list"
  | ValueError "frag list"
  | HTTPError string
  | OSError string
  | OverflowError
  | TypeError
  | IndexError
  | KeyError
  | AttributeError

subsection \<open>Python's operations on these values\<close>

text \<open>Truth value, as \<^verbatim>\<open>if x\<close>, \<^verbatim>\<open>not x\<close> and \<^verbatim>\<open>x or y\<close> test it.\<close>

fun truthy :: "json \<Rightarrow> bool" where
  "truthy JNull = False"
| "truthy (JBool b) = b"
| "truthy (JInt i) = (i \<noteq> 0)"
| "truthy (JFloat r) = (r \<noteq> 0)"
| "truthy (JStr s) = (s \<noteq> [])"
| "truthy (JArr xs) = (xs \<noteq> [])"
| "truthy (JObj kvs) = (kvs \<noteq> [])"

definition py_or :: "json \<Rightarrow> json \<Rightarrow> json" where
  "py_or a b = (if truthy a then a else b)"

text \<open>\<^verbatim>\<open>o.get(k)\<close>: only a dict has the method.\<close>

fun py_get :: "json \<Rightarrow> string \<Rightarrow> exn + json" where
  "py_get (JObj kvs) k = (case map_of kvs k of None \<Rightarrow> Inr JNull | Some v \<Rightarrow> Inr v)"
| "py_get _ k = Inl AttributeError"

text \<open>\<^verbatim>\<open>o[0]\<close>: a dict parsed from JSON has string keys only, so \<^verbatim>\<open>0\<close> is never a key.\<close>

fun py_item0 :: "json \<Rightarrow> exn + json" where
  "py_item0 (JArr []) = Inl IndexError"
| "py_item0 (JArr (x # xs)) = Inr x"
| "py_item0 (JStr []) = Inl IndexError"
| "py_item0 (JStr (c # cs)) = Inr (JStr [c])"
| "py_item0 (JObj kvs) = Inl KeyError"
| "py_item0 _ = Inl TypeError"

text \<open>\<^verbatim>\<open>o[k]\<close> for a string \<^verbatim>\<open>k\<close>: lists and strings take integer indices only.\<close>

fun py_item :: "json \<Rightarrow> string \<Rightarrow> exn + json" where
  "py_item (JObj kvs) k = (case map_of kvs k of None \<Rightarrow> Inl KeyError | Some v \<Rightarrow> Inr v)"
| "py_item _ k = Inl TypeError"

text \<open>\<^verbatim>\<open>x in S\<close> for a set \<^verbatim>\<open>S\<close> of strings: \<^verbatim>\<open>x\<close> is hashed first, and lists and dicts
  cannot be hashed.\<close>

fun py_in :: "json \<Rightarrow> string list \<Rightarrow> exn + bool" where
  "py_in (JStr s) S = Inr (s \<in> set S)"
| "py_in (JArr xs) S = Inl TypeError"
| "py_in (JObj kvs) S = Inl TypeError"
| "py_in _ S = Inr False"

text \<open>\<^verbatim>\<open>x != 0\<close>: \<^verbatim>\<open>0.0\<close> and \<^verbatim>\<open>False\<close> equal \<^verbatim>\<open>0\<close> in Python.\<close>

fun py_ne0 :: "json \<Rightarrow> bool" where
  "py_ne0 (JInt i) = (i \<noteq> 0)"
| "py_ne0 (JFloat r) = (r \<noteq> 0)"
| "py_ne0 (JBool b) = b"
| "py_ne0 _ = True"

subsection \<open>Strings\<close>

text \<open>\<^verbatim>\<open>str.lower\<close> on code points below 256: the ASCII capitals and the Latin-1
  capitals \<open>0xC0\<close> to \<open>0xDE\<close>, without the multiplication sign \<open>0xD7\<close>.\<close>

definition lower_char :: "char \<Rightarrow> char" where
  "lower_char c =
     (let n = (of_char c :: nat)
      in if (65 \<le> n \<and> n \<le> 90) \<or> (192 \<le> n \<and> n \<le> 222 \<and> n \<noteq> 215)
         then char_of (n + 32) else c)"

definition lower :: "string \<Rightarrow> string" where
  "lower s = map lower_char s"

text \<open>The class \<^verbatim>\<open>\s\<close> of \<^verbatim>\<open>re\<close> on code points below 256: \<open>0x09\<close> to \<open>0x0D\<close>,
  \<open>0x1C\<close> to \<open>0x20\<close>, \<open>0x85\<close> and \<open>0xA0\<close>.\<close>

definition is_space :: "char \<Rightarrow> bool" where
  "is_space c =
     (let n = (of_char c :: nat)
      in (9 \<le> n \<and> n \<le> 13) \<or> (28 \<le> n \<and> n \<le> 32) \<or> n = 133 \<or> n = 160)"

fun startswith :: "string \<Rightarrow> string \<Rightarrow> bool" where
  "startswith s [] = True"
| "startswith [] (p # ps) = False"
| "startswith (c # cs) (p # ps) = (c = p \<and> startswith cs ps)"

definition endswith :: "string \<Rightarrow> string \<Rightarrow> bool" where
  "endswith s e = startswith (rev s) (rev e)"

subsection \<open>Floats\<close>

text \<open>
  The value of \<^verbatim>\<open>time.time()\<close> is a Python \<^verbatim>\<open>float\<close>, an IEEE 754 binary64 number, and
  the difference of two of them is rounded to the nearest one, a tie going to the even
  significand. A finite float is represented by the real number it denotes; the two
  zeros are not told apart.
\<close>

datatype pyfloat = Finite real | PosInf | NegInf | NaN

text \<open>
  The exponent \<open>e\<close> with \<open>2 ^ e \<le> |x| < 2 ^ (e + 1)\<close>, and \<open>-1022\<close>, the exponent of the
  subnormal numbers, when that is larger or \<open>x\<close> is zero.
\<close>

definition binade :: "real \<Rightarrow> int" where
  "binade x =
     (let a = \<bar>x\<bar>
      in if a = 0 then - 1022
         else max (- 1022) (if 1 \<le> a then bitlen \<lfloor>a\<rfloor> - 1 else - bitlen (\<lceil>1 / a\<rceil> - 1)))"

definition round_half_even :: "real \<Rightarrow> int" where
  "round_half_even q =
     (let f = \<lfloor>q\<rfloor>; r = q - of_int f
      in if r < 1 / 2 then f else if 1 / 2 < r then f + 1 else if even f then f else f + 1)"

text \<open>
  Rounding to binary64: the floats around \<open>x\<close> are \<open>2 ^ (e - 52)\<close> apart, and a result
  of magnitude \<open>2 ^ 1024\<close> is an infinity.
\<close>

definition nearest_float :: "real \<Rightarrow> pyfloat" where
  "nearest_float x =
     (let u = 2 powi (binade x - 52);
          y = of_int (round_half_even (x / u)) * u
      in if 2 ^ 1024 \<le> y then PosInf else if y \<le> - (2 ^ 1024) then NegInf else Finite y)"

text \<open>\<^verbatim>\<open>x - y\<close> on floats.\<close>

fun float_sub :: "pyfloat \<Rightarrow> pyfloat \<Rightarrow> pyfloat" where
  "float_sub (Finite a) (Finite b) = nearest_float (a - b)"
| "float_sub NaN y = NaN"
| "float_sub x NaN = NaN"
| "float_sub PosInf PosInf = NaN"
| "float_sub NegInf NegInf = NaN"
| "float_sub PosInf y = PosInf"
| "float_sub NegInf y = NegInf"
| "float_sub (Finite a) PosInf = NegInf"
| "float_sub (Finite a) NegInf = PosInf"

text \<open>\<^verbatim>\<open>x > n\<close> for a float \<^verbatim>\<open>x\<close> and an \<^verbatim>\<open>int\<close> \<^verbatim>\<open>n\<close>: Python compares the two exactly.\<close>

fun float_gt_int :: "pyfloat \<Rightarrow> int \<Rightarrow> bool" where
  "float_gt_int (Finite a) n = (of_int n < a)"
| "float_gt_int PosInf n = True"
| "float_gt_int NegInf n = False"
| "float_gt_int NaN n = False"

section \<open>The extractor\<close>

subsection \<open>The pattern \<^verbatim>\<open>https?://[^\s"']+\<close>\<close>

text \<open>A character the class \<^verbatim>\<open>[^\s"']\<close> accepts.\<close>

definition url_char :: "char \<Rightarrow> bool" where
  "url_char c = (\<not> is_space c \<and> c \<noteq> CHR 0x22 \<and> c \<noteq> CHR 0x27)"

text \<open>
  The match of the pattern at the start of a string, if there is one. The optional
  \<^verbatim>\<open>s\<close> is tried first; without it the next character would have to be \<^verbatim>\<open>:\<close>, so the
  two alternatives never both apply. The class is greedy: the match takes every
  accepted character that follows, and needs at least one.
\<close>

definition match_here :: "string \<Rightarrow> string option" where
  "match_here s =
     (let n = (if startswith s ''https://'' then 8
               else if startswith s ''http://'' then 7 else 0);
          body = takeWhile url_char (drop n s)
      in if n = 0 \<or> body = [] then None else Some (take n s @ body))"

text \<open>
  \<^verbatim>\<open>re.findall\<close>: the matches from left to right, without overlap. The first argument
  counts the characters still covered by the last match.
\<close>

fun findall :: "nat \<Rightarrow> string \<Rightarrow> string list" where
  "findall k [] = []"
| "findall (Suc k) (c # cs) = findall k cs"
| "findall 0 (c # cs) =
     (case match_here (c # cs) of
        None \<Rightarrow> findall 0 cs
      | Some m \<Rightarrow> m # findall (length m - 1) cs)"

subsection \<open>\<^verbatim>\<open>_first_url_from\<close>\<close>

text \<open>The inner function \<^verbatim>\<open>collect\<close>; the list it appends to is its result here.\<close>

fun collect :: "json \<Rightarrow> string list" where
  "collect (JObj kvs) = concat (map (\<lambda>kv. collect (snd kv)) kvs)"
| "collect (JArr xs) = concat (map collect xs)"
| "collect (JStr s) = findall 0 s"
| "collect _ = []"

text \<open>The test \<^verbatim>\<open>u.lower().split("?", 1)[0].endswith(ext)\<close>.\<close>

definition ext_match :: "string \<Rightarrow> string \<Rightarrow> bool" where
  "ext_match u ext = endswith (takeWhile (\<lambda>c. c \<noteq> CHR ''?'') (lower u)) ext"

text \<open>The two nested \<^verbatim>\<open>for\<close> loops over \<^verbatim>\<open>exts\<close> and \<^verbatim>\<open>urls\<close>.\<close>

fun prefer_ext :: "string list \<Rightarrow> string list \<Rightarrow> string option" where
  "prefer_ext [] urls = None"
| "prefer_ext (ext # exts) urls =
     (case find (\<lambda>u. ext_match u ext) urls of
        Some u \<Rightarrow> Some u
      | None \<Rightarrow> prefer_ext exts urls)"

definition first_url_from :: "json \<Rightarrow> string list \<Rightarrow> string option" where
  "first_url_from obj exts =
     (let urls = collect obj
      in case prefer_ext exts urls of
           Some u \<Rightarrow> Some u
         | None \<Rightarrow> (case urls of [] \<Rightarrow> None | u # _ \<Rightarrow> Some u))"

section \<open>The world outside the program\<close>

text \<open>
  The requests of \<^verbatim>\<open>A2EClient\<close>, each with the arguments that the pipeline passes.
  The base address and the token are the same in every request and are left out.
\<close>

datatype request =
    Text2Image string string int int
  | StartTraining string string json
  | GetAvatar json
  | ContinueTraining json
  | SendTts string string
  | CharacterList json
  | VideoGenerate string json json
  | AwsResult json

text \<open>
  What a run does that can be observed from outside, in the order it happens.
  \<open>Saved\<close> is the local save of the picture (the path arithmetic, \<^verbatim>\<open>download_file\<close>
  and the two progress lines around it), \<open>Asked\<close> the prompt of \<^verbatim>\<open>input\<close>.
\<close>

datatype event =
    Sent request
  | Slept int
  | Printed "frag list"
  | PrintedJson string json
  | PrintedError string exn
  | Saved json
  | Asked string

text \<open>
  The state a run threads through: the events so far, and how often the clock has
  been read.
\<close>

record world =
  events :: "event list"
  clock_reads :: nat

text \<open>
  What the program cannot decide: the environment variables (after
  \<^verbatim>\<open>load_dotenv\<close>), the reply to the \<open>n\<close>-th sending of a request (the text of
  the exception when the request fails), the value of the \<open>n\<close>-th reading of the
  clock, whether the operating system refuses to sleep for an interval after \<open>n\<close>
  events (the text of its error), the operator's answer to the prompt, and whether
  the local save fails.
\<close>

record outside =
  getenv :: "string \<Rightarrow> string option"
  remote :: "request \<Rightarrow> nat \<Rightarrow> string + json"
  clock :: "nat \<Rightarrow> real"
  os_sleep :: "int \<Rightarrow> nat \<Rightarrow> string option"
  answer :: string
  save :: "json \<Rightarrow> exn option"

definition sent_before :: "world \<Rightarrow> request \<Rightarrow> nat" where
  "sent_before w r = count_list (events w) (Sent r)"

definition emit :: "event \<Rightarrow> world \<Rightarrow> world" where
  "emit e w = w\<lparr>events := events w @ [e]\<rparr>"

definition send :: "outside \<Rightarrow> request \<Rightarrow> world \<Rightarrow> (exn + json) \<times> world" where
  "send E r w =
     (case remote E r (sent_before w r) of
        Inl msg \<Rightarrow> (Inl (HTTPError msg), emit (Sent r) w)
      | Inr reply \<Rightarrow> (Inr reply, emit (Sent r) w))"

text \<open>\<^verbatim>\<open>time.time()\<close>: the float nearest to the reading of the clock.\<close>

definition time :: "outside \<Rightarrow> world \<Rightarrow> pyfloat \<times> world" where
  "time E w = (nearest_float (clock E (clock_reads w)), w\<lparr>clock_reads := Suc (clock_reads w)\<rparr>)"

text \<open>
  \<^verbatim>\<open>time.sleep(s)\<close> for an \<^verbatim>\<open>int\<close> \<^verbatim>\<open>s\<close> (CPython 3.11, 64 bits): the interval is
  converted to nanoseconds in a signed 64-bit integer, which raises \<open>OverflowError\<close>
  when it does not fit; a negative interval raises \<open>ValueError\<close>; then the operating
  system is asked to sleep, and its refusal raises \<open>OSError\<close>.
\<close>

definition sleep :: "outside \<Rightarrow> int \<Rightarrow> world \<Rightarrow> exn option \<times> world" where
  "sleep E s w =
     (if s < - 9223372036 \<or> 9223372036 < s then (Some OverflowError, w)
      else if s < 0 then (Some (ValueError [Lit ''sleep length must be non-negative'']), w)
      else (case os_sleep E s (length (events w)) of
              Some msg \<Rightarrow> (Some (OSError msg), w)
            | None \<Rightarrow> (None, emit (Slept s) w)))"

definition print :: "frag list \<Rightarrow> world \<Rightarrow> world" where
  "print line w = emit (Printed line) w"

section \<open>The pollers\<close>

text \<open>How one pass through the body of a \<^verbatim>\<open>while True\<close> loop ends.\<close>

datatype 'a outcome = Return 'a | Raise exn | Next

text \<open>
  The loop: the body is run until it returns or raises. A loop that runs forever
  has the value \<open>None\<close>.
\<close>

partial_function (option) while_True ::
  "(world \<Rightarrow> 'a outcome \<times> world) \<Rightarrow> world \<Rightarrow> ((exn + 'a) \<times> world) option" where
  "while_True body w =
     (case body w of
        (Return x, w') \<Rightarrow> Some (Inr x, w')
      | (Raise e, w') \<Rightarrow> Some (Inl e, w')
      | (Next, w') \<Rightarrow> while_True body w')"

subsection \<open>\<^verbatim>\<open>wait_until_avatar_ready\<close>\<close>

definition avatar_terminal_ok :: "string list" where
  "avatar_terminal_ok = [''ready'', ''trained'', ''succeeded'', ''completed'']"

definition avatar_terminal_bad :: "string list" where
  "avatar_terminal_bad = [''failed'', ''error'']"

text \<open>\<^verbatim>\<open>(item.get("data") or {}).get("current_status")\<close>\<close>

definition avatar_status :: "json \<Rightarrow> exn + json" where
  "avatar_status item =
     (case py_get item ''data'' of
        Inl e \<Rightarrow> Inl e
      | Inr d \<Rightarrow> py_get (py_or d (JObj [])) ''current_status'')"

definition avatar_body ::
  "outside \<Rightarrow> json \<Rightarrow> int \<Rightarrow> int \<Rightarrow> pyfloat \<Rightarrow> world \<Rightarrow> json outcome \<times> world" where
  "avatar_body E avatar_id timeout_s poll_s start w =
     (case send E (GetAvatar avatar_id) w of
        (Inl e, w1) \<Rightarrow> (Raise e, w1)
      | (Inr item, w1) \<Rightarrow>
          (case avatar_status item of
             Inl e \<Rightarrow> (Raise e, w1)
           | Inr status \<Rightarrow>
               (let w2 = print [Lit ''[avatar:'', Val avatar_id, Lit ''] status = '', Val status] w1
                in case py_in status avatar_terminal_ok of
                     Inl e \<Rightarrow> (Raise e, w2)
                   | Inr ok \<Rightarrow>
                       if ok then (Return item, w2)
                       else (case py_in status avatar_terminal_bad of
                               Inl e \<Rightarrow> (Raise e, w2)
                             | Inr bad \<Rightarrow>
                                 if bad
                                 then (Raise (RuntimeError [Lit ''Avatar training failed: '', Dumps item]), w2)
                                 else (case time E w2 of
                                         (t, w3) \<Rightarrow>
                                           if float_gt_int (float_sub t start) timeout_s
                                           then (Raise (TimeoutError
                                                   [Lit ''Timed out waiting for avatar '', Val avatar_id,
                                                    Lit '' to be ready'']), w3)
                                           else (case sleep E poll_s w3 of
                                                   (Some e, w4) \<Rightarrow> (Raise e, w4)
                                                 | (None, w4) \<Rightarrow> (Next, w4)))))))"

definition wait_until_avatar_ready ::
  "outside \<Rightarrow> json \<Rightarrow> int \<Rightarrow> int \<Rightarrow> world \<Rightarrow> ((exn + json) \<times> world) option" where
  "wait_until_avatar_ready E avatar_id timeout_s poll_s w =
     (case time E w of
        (start, w0) \<Rightarrow> while_True (avatar_body E avatar_id timeout_s poll_s start) w0)"

subsection \<open>\<^verbatim>\<open>wait_until_video_ready\<close>\<close>

definition video_terminal_ok :: "string list" where
  "video_terminal_ok = [''ready'', ''success'', ''completed'']"

definition video_terminal_bad :: "string list" where
  "video_terminal_bad = [''failed'', ''error'']"

text \<open>\<^verbatim>\<open>item.get("data")[0]['status']\<close>\<close>

definition video_status :: "json \<Rightarrow> exn + json" where
  "video_status item =
     (case py_get item ''data'' of
        Inl e \<Rightarrow> Inl e
      | Inr d \<Rightarrow>
          (case py_item0 d of
             Inl e \<Rightarrow> Inl e
           | Inr first \<Rightarrow> py_item first ''status''))"

definition video_body ::
  "outside \<Rightarrow> json \<Rightarrow> int \<Rightarrow> int \<Rightarrow> pyfloat \<Rightarrow> world \<Rightarrow> json outcome \<times> world" where
  "video_body E task_id timeout_s poll_s start w =
     (case send E (AwsResult task_id) w of
        (Inl e, w1) \<Rightarrow> (Raise e, w1)
      | (Inr item, w1) \<Rightarrow>
          (case video_status item of
             Inl e \<Rightarrow> (Raise e, w1)
           | Inr status \<Rightarrow>
               (let w2 = print [Lit ''[video:'', Val task_id, Lit ''] status = '', Val status] w1
                in case py_in status video_terminal_ok of
                     Inl e \<Rightarrow> (Raise e, w2)
                   | Inr ok \<Rightarrow>
                       if ok then (Return item, w2)
                       else (case py_in status video_terminal_bad of
                               Inl e \<Rightarrow> (Raise e, w2)
                             | Inr bad \<Rightarrow>
                                 if bad
                                 then (Raise (RuntimeError [Lit ''Video task failed: '', Dumps item]), w2)
                                 else (case time E w2 of
                                         (t, w3) \<Rightarrow>
                                           if float_gt_int (float_sub t start) timeout_s
                                           then (Raise (TimeoutError
                                                   [Lit ''Timed out waiting for video task '', Val task_id,
                                                    Lit '' to be ready'']), w3)
                                           else (case sleep E poll_s w3 of
                                                   (Some e, w4) \<Rightarrow> (Raise e, w4)
                                                 | (None, w4) \<Rightarrow> (Next, w4)))))))"

definition wait_until_video_ready ::
  "outside \<Rightarrow> json \<Rightarrow> int \<Rightarrow> int \<Rightarrow> world \<Rightarrow> ((exn + json) \<times> world) option" where
  "wait_until_video_ready E task_id timeout_s poll_s w =
     (case time E w of
        (start, w0) \<Rightarrow> while_True (video_body E task_id timeout_s poll_s start) w0)"

section \<open>Observations and the specification's vocabulary\<close>

text \<open>The line each poller prints after a fetch.\<close>

abbreviation avatar_line :: "json \<Rightarrow> json \<Rightarrow> event" where
  "avatar_line avatar_id status \<equiv>
     Printed [Lit ''[avatar:'', Val avatar_id, Lit ''] status = '', Val status]"

abbreviation video_line :: "json \<Rightarrow> json \<Rightarrow> event" where
  "video_line task_id status \<equiv>
     Printed [Lit ''[video:'', Val task_id, Lit ''] status = '', Val status]"


text \<open>
  The deadline test of both loops, \<^verbatim>\<open>time.time() - start > timeout_s\<close>, at the \<open>n\<close>-th
  reading of the clock.
\<close>

definition timed_out :: "outside \<Rightarrow> pyfloat \<Rightarrow> int \<Rightarrow> nat \<Rightarrow> bool" where
  "timed_out E start timeout_s n =
     float_gt_int (float_sub (nearest_float (clock E n)) start) timeout_s"

text \<open>
  The three buckets of the specification, with its two vocabularies. This is the
  specification's wording, to be compared with what the two loop bodies do.
\<close>

datatype job = AvatarJob | VideoJob

datatype bucket = Success | Failure | Pending

definition spec_bucket :: "job \<Rightarrow> string \<Rightarrow> bucket" where
  "spec_bucket j s =
     (case j of
        AvatarJob \<Rightarrow>
          if s \<in> {''ready'', ''trained'', ''succeeded'', ''completed''} then Success
          else if s \<in> {''failed'', ''error''} then Failure
          else Pending
      | VideoJob \<Rightarrow>
          if s \<in> {''ready'', ''success'', ''completed''} then Success
          else if s \<in> {''failed'', ''error''} then Failure
          else Pending)"

text \<open>A reply whose status is in neither set of the poller that fetched it.\<close>

definition avatar_pending :: "string + json \<Rightarrow> bool" where
  "avatar_pending r =
     (case r of
        Inl msg \<Rightarrow> False
      | Inr item \<Rightarrow>
          (case avatar_status item of
             Inl e \<Rightarrow> False
           | Inr status \<Rightarrow>
               py_in status avatar_terminal_ok = Inr False \<and>
               py_in status avatar_terminal_bad = Inr False))"

definition video_pending :: "string + json \<Rightarrow> bool" where
  "video_pending r =
     (case r of
        Inl msg \<Rightarrow> False
      | Inr item \<Rightarrow>
          (case video_status item of
             Inl e \<Rightarrow> False
           | Inr status \<Rightarrow>
               py_in status video_terminal_ok = Inr False \<and>
               py_in status video_terminal_bad = Inr False))"

section \<open>A scripted outside world\<close>

text \<open>
  Concrete replies in the shapes the two pollers read, an outside world that is
  built from a script of replies and a clock, and the world before anything happened.
\<close>

definition avatar_reply :: "string \<Rightarrow> json" where
  "avatar_reply s =
     JObj [(''code'', JInt 0),
           (''data'', JObj [(''_id'', JStr ''av1''), (''current_status'', JStr s)])]"

definition video_reply :: "string \<Rightarrow> json" where
  "video_reply s =
     JObj [(''code'', JInt 0),
           (''data'', JArr [JObj [(''status'', JStr s), (''result'', JStr ''https://x/b.mp4'')]])]"

definition scripted :: "(request \<Rightarrow> nat \<Rightarrow> string + json) \<Rightarrow> (nat \<Rightarrow> real) \<Rightarrow> outside" where
  "scripted replies readings =
     \<lparr>getenv = (\<lambda>k. if k = ''A2E_API_TOKEN'' then Some ''token'' else None),
      remote = replies, clock = readings, os_sleep = (\<lambda>s n. None),
      answer = ''y'', save = (\<lambda>u. None)\<rparr>"

text \<open>Every avatar fetch reports \<open>a\<close>, every video fetch reports \<open>v\<close>.\<close>

definition steady :: "string \<Rightarrow> string \<Rightarrow> request \<Rightarrow> nat \<Rightarrow> string + json" where
  "steady a v r n = (case r of GetAvatar i \<Rightarrow> Inr (avatar_reply a) | _ \<Rightarrow> Inr (video_reply v))"

text \<open>Both jobs never leave their pending status, and the clock advances by 40 seconds
  from one reading to the next.\<close>

definition stuck :: outside where
  "stuck = scripted (steady ''training'' ''processing'') (\<lambda>n. 40 * real n)"

text \<open>Every reply is a success envelope without \<^verbatim>\<open>data\<close>.\<close>

definition shapeless :: outside where
  "shapeless = scripted (\<lambda>r n. Inr (JObj [(''code'', JInt 0)])) (\<lambda>n. 0)"

definition fresh :: world where
  "fresh = \<lparr>events = [], clock_reads = 0\<rparr>"

text \<open>The world of a call in which only the start time has been read.\<close>

definition late :: world where
  "late = \<lparr>events = [], clock_reads = 1\<rparr>"

text \<open>Replies that never change, with the clock of \<open>stuck\<close>.\<close>

definition steadily :: "string \<Rightarrow> string \<Rightarrow> outside" where
  "steadily a v = scripted (steady a v) (\<lambda>n. 40 * real n)"

section \<open>Floats and sleeping\<close>

lemma bitlen_eqI: "0 < n \<Longrightarrow> 2 ^ (nat n - 1) \<le> x \<Longrightarrow> x < 2 ^ nat n \<Longrightarrow> bitlen x = n"
  by (rule antisym) (simp_all add: bitlen_le_iff_power bitlen_ge_iff_power)

lemma nearest_float_0 [simp]: "nearest_float 0 = Finite 0"
  by (simp add: nearest_float_def binade_def round_half_even_def Let_def)

lemma round_half_even_of_int [simp]: "round_half_even (of_int m) = m"
  by (simp add: round_half_even_def)

lemma nearest_float_exact:
  assumes "x / 2 powi (binade x - 52) = of_int m" and "\<bar>x\<bar> < 2 ^ 1024"
  shows "nearest_float x = Finite x"
proof -
  have u: "(2::real) powi (binade x - 52) \<noteq> 0" by simp
  have "of_int m * 2 powi (binade x - 52) = x"
    using assms(1) u by (simp add: field_simps)
  moreover from assms(2) have "x < 2 ^ 1024" "- (2 ^ 1024) < x"
    by linarith+
  ultimately show ?thesis
    by (simp add: nearest_float_def Let_def assms(1))
qed

lemma binade_of_int:
  assumes "k \<noteq> 0"
  shows "binade (of_int k) = bitlen \<bar>k\<bar> - 1"
proof -
  have "1 \<le> \<bar>k\<bar>" using assms by simp
  then have "1 \<le> bitlen \<bar>k\<bar>" by (simp add: bitlen_ge_iff_power)
  moreover have "\<lfloor>\<bar>real_of_int k\<bar>\<rfloor> = \<bar>k\<bar>" by (simp flip: of_int_abs)
  moreover have "1 \<le> \<bar>real_of_int k\<bar>" using assms by (simp flip: of_int_abs)
  ultimately show ?thesis using assms by (simp add: binade_def Let_def)
qed

lemma nearest_float_of_int:
  assumes "\<bar>k\<bar> \<le> 2 ^ 53"
  shows "nearest_float (of_int k) = Finite (of_int k)"
proof (cases "k = 0")
  case True
  then show ?thesis by simp
next
  case False
  let ?e = "bitlen \<bar>k\<bar> - 1"
  have pos: "0 < \<bar>k\<bar>" using False by simp
  have b: "binade (of_int k) = ?e" using False by (rule binade_of_int)
  have "1 \<le> \<bar>k\<bar>" using False by simp
  then have "1 \<le> bitlen \<bar>k\<bar>" by (simp add: bitlen_ge_iff_power)
  then have lo: "0 \<le> ?e" by simp
  have "\<bar>k\<bar> < 2 ^ nat 54" using assms by simp
  then have hi: "?e \<le> 53" using bitlen_le_iff_power [of "\<bar>k\<bar>" 54] by simp
  have small: "\<bar>real_of_int k\<bar> < 2 ^ 1024"
  proof -
    have "\<bar>real_of_int k\<bar> \<le> 2 ^ 53" using assms by (simp flip: of_int_abs)
    also have "\<dots> < (2::real) ^ 1024" by simp
    finally show ?thesis .
  qed
  have "\<exists>m. real_of_int k / 2 powi (?e - 52) = of_int m"
  proof (cases "?e \<le> 52")
    case True
    then have "(2::real) powi (?e - 52) = 1 / 2 ^ nat (52 - ?e)"
      by (simp add: power_int_def field_simps)
    then have "real_of_int k / 2 powi (?e - 52) = of_int (k * 2 ^ nat (52 - ?e))"
      by simp
    then show ?thesis by blast
  next
    case False
    with hi have e: "?e = 53" by simp
    from bitlen_bounds [OF pos] have "2 ^ nat ?e \<le> \<bar>k\<bar>" by simp
    with e assms have "\<bar>k\<bar> = 2 ^ 53" by simp
    then have "k = 2 * 2 ^ 52 \<or> k = - (2 * 2 ^ 52)" by (simp add: abs_if split: if_splits)
    then have "real_of_int k / 2 powi (?e - 52) = of_int (k div 2)"
      using e by auto
    then show ?thesis by blast
  qed
  then obtain m where "real_of_int k / 2 powi (binade (of_int k) - 52) = of_int m"
    using b by auto
  from nearest_float_exact [OF this small] show ?thesis .
qed

text \<open>
  The difference of two floats is rounded: the floats nearest to \<open>1.1\<close> and \<open>0.1\<close> differ
  by a little more than one, and their difference as Python computes it is \<open>1.0\<close>.
\<close>

lemma float_sub_rounds:
  "float_sub (nearest_float (11 / 10)) (nearest_float (1 / 10)) = Finite 1"
proof -
  have b1: "bitlen 1 = 1" by (rule bitlen_eqI) simp_all
  have b9: "bitlen 9 = 4" by (rule bitlen_eqI) simp_all
  have "nearest_float (11 / 10) = Finite (4953959590107546 / 2 ^ 52)"
    by (simp add: nearest_float_def binade_def round_half_even_def b1 Let_def)
  moreover have "nearest_float (1 / 10) = Finite (7205759403792794 / 2 ^ 56)"
    by (simp add: nearest_float_def binade_def round_half_even_def b9 Let_def)
  ultimately show ?thesis
    by (simp add: nearest_float_def binade_def round_half_even_def b1 Let_def)
qed


lemma sleep_events:
  "sleep E s w = (r, w') \<Longrightarrow>
     clock_reads w' = clock_reads w \<and>
     (case r of None \<Rightarrow> events w' = events w @ [Slept s] | Some e \<Rightarrow> events w' = events w)"
  by (auto simp: sleep_def emit_def split: if_splits option.splits)

lemma sleep_Some:
  "sleep E s w = (Some e, w') \<Longrightarrow>
     e \<in> {OverflowError, ValueError [Lit ''sleep length must be non-negative'']} \<or>
     (\<exists>msg. e = OSError msg)"
  by (auto simp: sleep_def split: if_splits option.splits)

section \<open>The loop\<close>

lemma while_True_Return:
  "body w = (Return x, w') \<Longrightarrow> while_True body w = Some (Inr x, w')"
  by (subst while_True.simps) simp

lemma while_True_Raise:
  "body w = (Raise e, w') \<Longrightarrow> while_True body w = Some (Inl e, w')"
  by (subst while_True.simps) simp


section \<open>One pass of each poller\<close>

text \<open>
  What a pass does once the fetch has answered and the status could be read and
  looked up in both sets.
\<close>

lemma avatar_body_eq:
  assumes "remote E (GetAvatar avatar_id) (sent_before w (GetAvatar avatar_id)) = Inr item"
    and "avatar_status item = Inr status"
    and "py_in status avatar_terminal_ok = Inr ok"
    and "py_in status avatar_terminal_bad = Inr bad"
  shows "avatar_body E avatar_id timeout_s poll_s start w =
     (let w2 = w\<lparr>events := events w @ [Sent (GetAvatar avatar_id), avatar_line avatar_id status]\<rparr>;
          w3 = w2\<lparr>clock_reads := Suc (clock_reads w)\<rparr>
      in if ok then (Return item, w2)
         else if bad then (Raise (RuntimeError [Lit ''Avatar training failed: '', Dumps item]), w2)
         else if timed_out E start timeout_s (clock_reads w)
         then (Raise (TimeoutError [Lit ''Timed out waiting for avatar '', Val avatar_id,
                                    Lit '' to be ready'']), w3)
         else (case sleep E poll_s w3 of
                 (Some e, w4) \<Rightarrow> (Raise e, w4)
               | (None, w4) \<Rightarrow> (Next, w4)))"
  using assms
  by (simp add: avatar_body_def send_def time_def print_def emit_def timed_out_def Let_def)

lemma video_body_eq:
  assumes "remote E (AwsResult task_id) (sent_before w (AwsResult task_id)) = Inr item"
    and "video_status item = Inr status"
    and "py_in status video_terminal_ok = Inr ok"
    and "py_in status video_terminal_bad = Inr bad"
  shows "video_body E task_id timeout_s poll_s start w =
     (let w2 = w\<lparr>events := events w @ [Sent (AwsResult task_id), video_line task_id status]\<rparr>;
          w3 = w2\<lparr>clock_reads := Suc (clock_reads w)\<rparr>
      in if ok then (Return item, w2)
         else if bad then (Raise (RuntimeError [Lit ''Video task failed: '', Dumps item]), w2)
         else if timed_out E start timeout_s (clock_reads w)
         then (Raise (TimeoutError [Lit ''Timed out waiting for video task '', Val task_id,
                                    Lit '' to be ready'']), w3)
         else (case sleep E poll_s w3 of
                 (Some e, w4) \<Rightarrow> (Raise e, w4)
               | (None, w4) \<Rightarrow> (Next, w4)))"
  using assms
  by (simp add: video_body_def send_def time_def print_def emit_def timed_out_def Let_def)

lemma sent_before_time [simp]: "sent_before (snd (time E w)) r = sent_before w r"
  by (simp add: sent_before_def time_def)

lemma wait_avatar_unfold:
  "wait_until_avatar_ready E avatar_id timeout_s poll_s w =
     while_True (avatar_body E avatar_id timeout_s poll_s (nearest_float (clock E (clock_reads w))))
       (w\<lparr>clock_reads := Suc (clock_reads w)\<rparr>)"
  by (simp add: wait_until_avatar_ready_def time_def)

lemma wait_video_unfold:
  "wait_until_video_ready E task_id timeout_s poll_s w =
     while_True (video_body E task_id timeout_s poll_s (nearest_float (clock E (clock_reads w))))
       (w\<lparr>clock_reads := Suc (clock_reads w)\<rparr>)"
  by (simp add: wait_until_video_ready_def time_def)

lemma sent_before_clock_reads [simp]:
  "sent_before (w\<lparr>clock_reads := n\<rparr>) r = sent_before w r"
  by (simp add: sent_before_def)

text \<open>
  A property of every finished run of the loop follows from what single passes do:
  the rule packages the fixed-point induction of the loop.
\<close>

lemma while_True_rule:
  assumes run: "while_True body w = Some (r, w')"
    and ret: "\<And>v x v'. body v = (Return x, v') \<Longrightarrow> Q v (Inr x) v'"
    and rai: "\<And>v e v'. body v = (Raise e, v') \<Longrightarrow> Q v (Inl e) v'"
    and nxt: "\<And>v v1 r v'. body v = (Next, v1) \<Longrightarrow> Q v1 r v' \<Longrightarrow> Q v r v'"
  shows "Q w r w'"
proof -
  have "b = body \<longrightarrow> Q v (fst y) (snd y)" if "while_True b v = Some y" for b v y
  proof (rule while_True.raw_induct
      [where P = "\<lambda>b v y. b = body \<longrightarrow> Q v (fst y) (snd y)", OF _ that])
    fix f :: "(world \<Rightarrow> 'a outcome \<times> world) \<Rightarrow> world \<Rightarrow> ((exn + 'a) \<times> world) option"
    fix b v y
    assume IH: "\<And>b v y. f b v = Some y \<Longrightarrow> b = body \<longrightarrow> Q v (fst y) (snd y)"
      and step: "(case b v of
                    (Return x, w') \<Rightarrow> Some (Inr x, w')
                  | (Raise e, w') \<Rightarrow> Some (Inl e, w')
                  | (Next, w') \<Rightarrow> f b w') = Some y"
    show "b = body \<longrightarrow> Q v (fst y) (snd y)"
    proof
      assume b: "b = body"
      obtain out v1 where bv: "body v = (out, v1)" by (cases "body v")
      show "Q v (fst y) (snd y)"
      proof (cases out)
        case (Return x)
        with step b bv ret show ?thesis by auto
      next
        case (Raise e)
        with step b bv rai show ?thesis by auto
      next
        case Next
        with step b bv have "f body v1 = Some y" by simp
        from IH [OF this] have "Q v1 (fst y) (snd y)" by simp
        with nxt bv Next show ?thesis by blast
      qed
    qed
  qed
  from this [OF run] show ?thesis by simp
qed


lemma py_in_Inl: "py_in x S = Inl e \<Longrightarrow> e = TypeError"
  by (cases x) auto

lemma py_get_Inl: "py_get x k = Inl e \<Longrightarrow> e = AttributeError"
  by (cases x) (auto split: option.splits)

lemma avatar_status_Inl: "avatar_status item = Inl e \<Longrightarrow> e = AttributeError"
  by (auto simp: avatar_status_def split: sum.splits dest: py_get_Inl)

lemma py_item0_Inl: "py_item0 x = Inl e \<Longrightarrow> e \<in> {TypeError, IndexError, KeyError}"
  by (induction x rule: py_item0.induct) auto

lemma py_item_Inl: "py_item x k = Inl e \<Longrightarrow> e \<in> {TypeError, KeyError}"
  by (cases x) (auto split: option.splits)

lemma video_status_Inl:
  "video_status item = Inl e \<Longrightarrow> e \<in> {AttributeError, TypeError, IndexError, KeyError}"
  by (auto simp: video_status_def split: sum.splits dest: py_get_Inl py_item0_Inl py_item_Inl)

text \<open>Every pass begins with the fetch.\<close>

lemma avatar_body_first_event:
  "avatar_body E avatar_id timeout_s poll_s start v = (out, v') \<Longrightarrow>
     \<exists>tr. events v' = events v @ Sent (GetAvatar avatar_id) # tr"
  by (auto simp: avatar_body_def send_def time_def print_def emit_def Let_def
      split: sum.splits if_splits prod.splits option.splits dest!: sleep_events)

lemma video_body_first_event:
  "video_body E task_id timeout_s poll_s start v = (out, v') \<Longrightarrow>
     \<exists>tr. events v' = events v @ Sent (AwsResult task_id) # tr"
  by (auto simp: video_body_def send_def time_def print_def emit_def Let_def
      split: sum.splits if_splits prod.splits option.splits dest!: sleep_events)

text \<open>A pass that raises the timeout has printed a status that is in neither set.\<close>

lemma avatar_body_timeout:
  "avatar_body E avatar_id timeout_s poll_s start v = (Raise (TimeoutError m), v') \<Longrightarrow>
     \<exists>st. events v' = events v @ [Sent (GetAvatar avatar_id), avatar_line avatar_id st] \<and>
          py_in st avatar_terminal_ok = Inr False \<and> py_in st avatar_terminal_bad = Inr False \<and>
          timed_out E start timeout_s (clock_reads v)"
  by (auto simp: avatar_body_def send_def time_def print_def emit_def timed_out_def Let_def
      split: sum.splits if_splits prod.splits option.splits
      dest: py_in_Inl avatar_status_Inl sleep_Some)

lemma video_body_timeout:
  "video_body E task_id timeout_s poll_s start v = (Raise (TimeoutError m), v') \<Longrightarrow>
     \<exists>st. events v' = events v @ [Sent (AwsResult task_id), video_line task_id st] \<and>
          py_in st video_terminal_ok = Inr False \<and> py_in st video_terminal_bad = Inr False \<and>
          timed_out E start timeout_s (clock_reads v)"
  by (auto simp: video_body_def send_def time_def print_def emit_def timed_out_def Let_def
      split: sum.splits if_splits prod.splits option.splits
      dest: py_in_Inl video_status_Inl sleep_Some)

section \<open>Runs of the pollers\<close>





text \<open>Every finished run of a loop has fetched first.\<close>

lemma avatar_run_first_event:
  assumes "while_True (avatar_body E avatar_id timeout_s poll_s start) v = Some (r, v')"
  shows "\<exists>tr. events v' = events v @ Sent (GetAvatar avatar_id) # tr"
proof (rule while_True_rule [OF assms])
  fix u x u' assume "avatar_body E avatar_id timeout_s poll_s start u = (Return x, u')"
  then show "\<exists>tr. events u' = events u @ Sent (GetAvatar avatar_id) # tr"
    by (rule avatar_body_first_event)
next
  fix u e u' assume "avatar_body E avatar_id timeout_s poll_s start u = (Raise e, u')"
  then show "\<exists>tr. events u' = events u @ Sent (GetAvatar avatar_id) # tr"
    by (rule avatar_body_first_event)
next
  fix u u1 u'
  assume "avatar_body E avatar_id timeout_s poll_s start u = (Next, u1)"
    and "\<exists>tr. events u' = events u1 @ Sent (GetAvatar avatar_id) # tr"
  then show "\<exists>tr. events u' = events u @ Sent (GetAvatar avatar_id) # tr"
    by (auto dest!: avatar_body_first_event)
qed

text \<open>
  A run that ends with the timeout has, as its last events, fetched and printed a
  status that is in neither set.
\<close>

lemma avatar_run_timeout:
  assumes "while_True (avatar_body E avatar_id timeout_s poll_s start) v = Some (r, v')"
  shows "(\<exists>m. r = Inl (TimeoutError m)) \<longrightarrow>
         (\<exists>tr st. events v' = events v @ tr @ [Sent (GetAvatar avatar_id), avatar_line avatar_id st] \<and>
                  py_in st avatar_terminal_ok = Inr False \<and>
                  py_in st avatar_terminal_bad = Inr False)"
proof (rule while_True_rule [OF assms])
  fix u :: world and x :: json and u' :: world
  show "(\<exists>m. (Inr x :: exn + json) = Inl (TimeoutError m)) \<longrightarrow>
         (\<exists>tr st. events u' = events u @ tr @ [Sent (GetAvatar avatar_id), avatar_line avatar_id st] \<and>
                  py_in st avatar_terminal_ok = Inr False \<and>
                  py_in st avatar_terminal_bad = Inr False)"
    by simp
next
  fix u e u' assume "avatar_body E avatar_id timeout_s poll_s start u = (Raise e, u')"
  then show "(\<exists>m. (Inl e :: exn + json) = Inl (TimeoutError m)) \<longrightarrow>
         (\<exists>tr st. events u' = events u @ tr @ [Sent (GetAvatar avatar_id), avatar_line avatar_id st] \<and>
                  py_in st avatar_terminal_ok = Inr False \<and>
                  py_in st avatar_terminal_bad = Inr False)"
    by (auto dest!: avatar_body_timeout)
next
  fix u u1 :: world and r :: "exn + json" and u' :: world
  assume "avatar_body E avatar_id timeout_s poll_s start u = (Next, u1)"
  then obtain tr1 where tr1: "events u1 = events u @ tr1"
    by (auto dest!: avatar_body_first_event)
  assume "(\<exists>m. r = Inl (TimeoutError m)) \<longrightarrow>
         (\<exists>tr st. events u' = events u1 @ tr @ [Sent (GetAvatar avatar_id), avatar_line avatar_id st] \<and>
                  py_in st avatar_terminal_ok = Inr False \<and>
                  py_in st avatar_terminal_bad = Inr False)"
  then show "(\<exists>m. r = Inl (TimeoutError m)) \<longrightarrow>
         (\<exists>tr st. events u' = events u @ tr @ [Sent (GetAvatar avatar_id), avatar_line avatar_id st] \<and>
                  py_in st avatar_terminal_ok = Inr False \<and>
                  py_in st avatar_terminal_bad = Inr False)"
    unfolding tr1 by (metis append.assoc)
qed

lemma video_run_first_event:
  assumes "while_True (video_body E task_id timeout_s poll_s start) v = Some (r, v')"
  shows "\<exists>tr. events v' = events v @ Sent (AwsResult task_id) # tr"
proof (rule while_True_rule [OF assms])
  fix u x u' assume "video_body E task_id timeout_s poll_s start u = (Return x, u')"
  then show "\<exists>tr. events u' = events u @ Sent (AwsResult task_id) # tr"
    by (rule video_body_first_event)
next
  fix u e u' assume "video_body E task_id timeout_s poll_s start u = (Raise e, u')"
  then show "\<exists>tr. events u' = events u @ Sent (AwsResult task_id) # tr"
    by (rule video_body_first_event)
next
  fix u u1 u'
  assume "video_body E task_id timeout_s poll_s start u = (Next, u1)"
    and "\<exists>tr. events u' = events u1 @ Sent (AwsResult task_id) # tr"
  then show "\<exists>tr. events u' = events u @ Sent (AwsResult task_id) # tr"
    by (auto dest!: video_body_first_event)
qed

lemma video_run_timeout:
  assumes "while_True (video_body E task_id timeout_s poll_s start) v = Some (r, v')"
  shows "(\<exists>m. r = Inl (TimeoutError m)) \<longrightarrow>
         (\<exists>tr st. events v' = events v @ tr @ [Sent (AwsResult task_id), video_line task_id st] \<and>
                  py_in st video_terminal_ok = Inr False \<and>
                  py_in st video_terminal_bad = Inr False)"
proof (rule while_True_rule [OF assms])
  fix u :: world and x :: json and u' :: world
  show "(\<exists>m. (Inr x :: exn + json) = Inl (TimeoutError m)) \<longrightarrow>
         (\<exists>tr st. events u' = events u @ tr @ [Sent (AwsResult task_id), video_line task_id st] \<and>
                  py_in st video_terminal_ok = Inr False \<and>
                  py_in st video_terminal_bad = Inr False)"
    by simp
next
  fix u e u' assume "video_body E task_id timeout_s poll_s start u = (Raise e, u')"
  then show "(\<exists>m. (Inl e :: exn + json) = Inl (TimeoutError m)) \<longrightarrow>
         (\<exists>tr st. events u' = events u @ tr @ [Sent (AwsResult task_id), video_line task_id st] \<and>
                  py_in st video_terminal_ok = Inr False \<and>
                  py_in st video_terminal_bad = Inr False)"
    by (auto dest!: video_body_timeout)
next
  fix u u1 :: world and r :: "exn + json" and u' :: world
  assume "video_body E task_id timeout_s poll_s start u = (Next, u1)"
  then obtain tr1 where tr1: "events u1 = events u @ tr1"
    by (auto dest!: video_body_first_event)
  assume "(\<exists>m. r = Inl (TimeoutError m)) \<longrightarrow>
         (\<exists>tr st. events u' = events u1 @ tr @ [Sent (AwsResult task_id), video_line task_id st] \<and>
                  py_in st video_terminal_ok = Inr False \<and>
                  py_in st video_terminal_bad = Inr False)"
  then show "(\<exists>m. r = Inl (TimeoutError m)) \<longrightarrow>
         (\<exists>tr st. events u' = events u @ tr @ [Sent (AwsResult task_id), video_line task_id st] \<and>
                  py_in st video_terminal_ok = Inr False \<and>
                  py_in st video_terminal_bad = Inr False)"
    unfolding tr1 by (metis append.assoc)
qed
section \<open>Claims about the pollers\<close>

text \<open>
  C1. A status string that a fetch returns falls into exactly one of three buckets,
  by the vocabulary of the job type: for avatar jobs success is ready, trained,
  succeeded or completed and failure is failed or error; for video jobs success is
  ready, success or completed and failure is failed or error; every other string is
  pending. The pass of the loop body that fetched it returns the response for a
  success status and raises the failure error for a failure status. For a pending
  status it does neither: it goes on to the deadline test, raises the timeout when
  that test holds, and otherwise calls \<^verbatim>\<open>time.sleep\<close> with the poll interval and lets
  the loop go round again, unless that call raises.
\<close>

theorem poller_status_buckets:
  "(remote E (GetAvatar avatar_id) (sent_before w (GetAvatar avatar_id)) = Inr item \<and>
    avatar_status item = Inr (JStr s) \<longrightarrow>
      (case spec_bucket AvatarJob s of
         Success \<Rightarrow> fst (avatar_body E avatar_id timeout_s poll_s start w) = Return item
       | Failure \<Rightarrow>
           fst (avatar_body E avatar_id timeout_s poll_s start w) =
             Raise (RuntimeError [Lit ''Avatar training failed: '', Dumps item])
       | Pending \<Rightarrow>
           fst (avatar_body E avatar_id timeout_s poll_s start w) =
             (if timed_out E start timeout_s (clock_reads w)
              then Raise (TimeoutError [Lit ''Timed out waiting for avatar '', Val avatar_id,
                                        Lit '' to be ready''])
              else case fst (sleep E poll_s
                              (w\<lparr>events := events w @ [Sent (GetAvatar avatar_id), avatar_line avatar_id (JStr s)],
                                clock_reads := Suc (clock_reads w)\<rparr>)) of
                     Some e \<Rightarrow> Raise e
                   | None \<Rightarrow> Next))) \<and>
   (remote E (AwsResult task_id) (sent_before w (AwsResult task_id)) = Inr item' \<and>
    video_status item' = Inr (JStr s') \<longrightarrow>
      (case spec_bucket VideoJob s' of
         Success \<Rightarrow> fst (video_body E task_id timeout_s poll_s start w) = Return item'
       | Failure \<Rightarrow>
           fst (video_body E task_id timeout_s poll_s start w) =
             Raise (RuntimeError [Lit ''Video task failed: '', Dumps item'])
       | Pending \<Rightarrow>
           fst (video_body E task_id timeout_s poll_s start w) =
             (if timed_out E start timeout_s (clock_reads w)
              then Raise (TimeoutError [Lit ''Timed out waiting for video task '', Val task_id,
                                        Lit '' to be ready''])
              else case fst (sleep E poll_s
                              (w\<lparr>events := events w @ [Sent (AwsResult task_id), video_line task_id (JStr s')],
                                clock_reads := Suc (clock_reads w)\<rparr>)) of
                     Some e \<Rightarrow> Raise e
                   | None \<Rightarrow> Next)))"
proof (intro conjI impI)
  assume a: "remote E (GetAvatar avatar_id) (sent_before w (GetAvatar avatar_id)) = Inr item \<and>
             avatar_status item = Inr (JStr s)"
  have "avatar_body E avatar_id timeout_s poll_s start w =
     (let w2 = w\<lparr>events := events w @ [Sent (GetAvatar avatar_id), avatar_line avatar_id (JStr s)]\<rparr>;
          w3 = w2\<lparr>clock_reads := Suc (clock_reads w)\<rparr>
      in if s \<in> set avatar_terminal_ok then (Return item, w2)
         else if s \<in> set avatar_terminal_bad
         then (Raise (RuntimeError [Lit ''Avatar training failed: '', Dumps item]), w2)
         else if timed_out E start timeout_s (clock_reads w)
         then (Raise (TimeoutError [Lit ''Timed out waiting for avatar '', Val avatar_id,
                                    Lit '' to be ready'']), w3)
         else (case sleep E poll_s w3 of
                 (Some e, w4) \<Rightarrow> (Raise e, w4)
               | (None, w4) \<Rightarrow> (Next, w4)))"
    using a by (intro avatar_body_eq) simp_all
  then show "(case spec_bucket AvatarJob s of
         Success \<Rightarrow> fst (avatar_body E avatar_id timeout_s poll_s start w) = Return item
       | Failure \<Rightarrow>
           fst (avatar_body E avatar_id timeout_s poll_s start w) =
             Raise (RuntimeError [Lit ''Avatar training failed: '', Dumps item])
       | Pending \<Rightarrow>
           fst (avatar_body E avatar_id timeout_s poll_s start w) =
             (if timed_out E start timeout_s (clock_reads w)
              then Raise (TimeoutError [Lit ''Timed out waiting for avatar '', Val avatar_id,
                                        Lit '' to be ready''])
              else case fst (sleep E poll_s
                              (w\<lparr>events := events w @ [Sent (GetAvatar avatar_id), avatar_line avatar_id (JStr s)],
                                clock_reads := Suc (clock_reads w)\<rparr>)) of
                     Some e \<Rightarrow> Raise e
                   | None \<Rightarrow> Next))"
    by (simp add: spec_bucket_def avatar_terminal_ok_def avatar_terminal_bad_def Let_def
        split: prod.splits option.splits)
next
  assume a: "remote E (AwsResult task_id) (sent_before w (AwsResult task_id)) = Inr item' \<and>
             video_status item' = Inr (JStr s')"
  have "video_body E task_id timeout_s poll_s start w =
     (let w2 = w\<lparr>events := events w @ [Sent (AwsResult task_id), video_line task_id (JStr s')]\<rparr>;
          w3 = w2\<lparr>clock_reads := Suc (clock_reads w)\<rparr>
      in if s' \<in> set video_terminal_ok then (Return item', w2)
         else if s' \<in> set video_terminal_bad
         then (Raise (RuntimeError [Lit ''Video task failed: '', Dumps item']), w2)
         else if timed_out E start timeout_s (clock_reads w)
         then (Raise (TimeoutError [Lit ''Timed out waiting for video task '', Val task_id,
                                    Lit '' to be ready'']), w3)
         else (case sleep E poll_s w3 of
                 (Some e, w4) \<Rightarrow> (Raise e, w4)
               | (None, w4) \<Rightarrow> (Next, w4)))"
    using a by (intro video_body_eq) simp_all
  then show "(case spec_bucket VideoJob s' of
         Success \<Rightarrow> fst (video_body E task_id timeout_s poll_s start w) = Return item'
       | Failure \<Rightarrow>
           fst (video_body E task_id timeout_s poll_s start w) =
             Raise (RuntimeError [Lit ''Video task failed: '', Dumps item'])
       | Pending \<Rightarrow>
           fst (video_body E task_id timeout_s poll_s start w) =
             (if timed_out E start timeout_s (clock_reads w)
              then Raise (TimeoutError [Lit ''Timed out waiting for video task '', Val task_id,
                                        Lit '' to be ready''])
              else case fst (sleep E poll_s
                              (w\<lparr>events := events w @ [Sent (AwsResult task_id), video_line task_id (JStr s')],
                                clock_reads := Suc (clock_reads w)\<rparr>)) of
                     Some e \<Rightarrow> Raise e
                   | None \<Rightarrow> Next))"
    by (simp add: spec_bucket_def video_terminal_ok_def video_terminal_bad_def Let_def
        split: prod.splits option.splits)
qed

theorem poller_status_buckets_witness:
  "remote (scripted (steady ''trained'' ''error'') (\<lambda>n. 0)) (GetAvatar (JStr ''av1''))
     (sent_before fresh (GetAvatar (JStr ''av1''))) = Inr (avatar_reply ''trained'') \<and>
   avatar_status (avatar_reply ''trained'') = Inr (JStr ''trained'') \<and>
   remote (scripted (steady ''trained'' ''error'') (\<lambda>n. 0)) (AwsResult (JStr ''t1''))
     (sent_before fresh (AwsResult (JStr ''t1''))) = Inr (video_reply ''error'') \<and>
   video_status (video_reply ''error'') = Inr (JStr ''error'') \<and>
   spec_bucket AvatarJob ''trained'' = Success \<and>
   fst (avatar_body (scripted (steady ''trained'' ''error'') (\<lambda>n. 0)) (JStr ''av1'') 1800 20 (Finite 0) fresh) =
     Return (avatar_reply ''trained'') \<and>
   spec_bucket VideoJob ''error'' = Failure \<and>
   fst (video_body (scripted (steady ''trained'' ''error'') (\<lambda>n. 0)) (JStr ''t1'') 1800 20 (Finite 0) fresh) =
     Raise (RuntimeError [Lit ''Video task failed: '', Dumps (video_reply ''error'')]) \<and>
   remote (scripted (steady ''training'' ''processing'') (\<lambda>n. 0)) (GetAvatar (JStr ''av1''))
     (sent_before fresh (GetAvatar (JStr ''av1''))) = Inr (avatar_reply ''training'') \<and>
   avatar_status (avatar_reply ''training'') = Inr (JStr ''training'') \<and>
   remote (scripted (steady ''training'' ''processing'') (\<lambda>n. 0)) (AwsResult (JStr ''t1''))
     (sent_before fresh (AwsResult (JStr ''t1''))) = Inr (video_reply ''processing'') \<and>
   video_status (video_reply ''processing'') = Inr (JStr ''processing'') \<and>
   spec_bucket AvatarJob ''training'' = Pending \<and>
   spec_bucket VideoJob ''processing'' = Pending \<and>
   \<not> timed_out (scripted (steady ''training'' ''processing'') (\<lambda>n. 0)) (Finite 0) 1800 (clock_reads fresh) \<and>
   fst (avatar_body (scripted (steady ''training'' ''processing'') (\<lambda>n. 0)) (JStr ''av1'') 1800 20 (Finite 0) fresh) = Next \<and>
   fst (video_body (scripted (steady ''training'' ''processing'') (\<lambda>n. 0)) (JStr ''t1'') 1800 20 (Finite 0) fresh) = Next \<and>
   fst (avatar_body (scripted (steady ''training'' ''processing'') (\<lambda>n. 0)) (JStr ''av1'') 1800 (- 1) (Finite 0) fresh) =
     Raise (ValueError [Lit ''sleep length must be non-negative'']) \<and>
   fst (video_body (scripted (steady ''training'' ''processing'') (\<lambda>n. 0)) (JStr ''t1'') 1800 (- 1) (Finite 0) fresh) =
     Raise (ValueError [Lit ''sleep length must be non-negative''])"
  using poller_status_buckets [where E = "scripted (steady ''trained'' ''error'') (\<lambda>n. 0)"
      and avatar_id = "JStr ''av1''" and task_id = "JStr ''t1''" and w = fresh
      and item = "avatar_reply ''trained''" and s = "''trained''"
      and item' = "video_reply ''error''" and s' = "''error''"
      and timeout_s = 1800 and poll_s = "20" and start = "Finite 0"]
    poller_status_buckets [where E = "scripted (steady ''training'' ''processing'') (\<lambda>n. 0)"
      and avatar_id = "JStr ''av1''" and task_id = "JStr ''t1''" and w = fresh
      and item = "avatar_reply ''training''" and s = "''training''"
      and item' = "video_reply ''processing''" and s' = "''processing''"
      and timeout_s = 1800 and poll_s = "20" and start = "Finite 0"]
    poller_status_buckets [where E = "scripted (steady ''training'' ''processing'') (\<lambda>n. 0)"
      and avatar_id = "JStr ''av1''" and task_id = "JStr ''t1''" and w = fresh
      and item = "avatar_reply ''training''" and s = "''training''"
      and item' = "video_reply ''processing''" and s' = "''processing''"
      and timeout_s = 1800 and poll_s = "- 1" and start = "Finite 0"]
  by (simp add: scripted_def steady_def avatar_reply_def video_reply_def avatar_status_def
      video_status_def py_or_def spec_bucket_def timed_out_def sleep_def fresh_def)

text \<open>
  C2. When the first fetch reports a status of the success set, the poller returns
  the fetched response as it is. The run consists of the reading of the start time,
  that one fetch and the status line: no sleep, no second fetch.
\<close>

theorem success_returns_on_first_fetch:
  "(s \<in> set avatar_terminal_ok \<and>
    remote E (GetAvatar avatar_id) (sent_before w (GetAvatar avatar_id)) = Inr item \<and>
    avatar_status item = Inr (JStr s) \<longrightarrow>
      wait_until_avatar_ready E avatar_id timeout_s poll_s w =
        Some (Inr item,
              w\<lparr>events := events w @ [Sent (GetAvatar avatar_id), avatar_line avatar_id (JStr s)],
                clock_reads := Suc (clock_reads w)\<rparr>)) \<and>
   (s' \<in> set video_terminal_ok \<and>
    remote E (AwsResult task_id) (sent_before w (AwsResult task_id)) = Inr item' \<and>
    video_status item' = Inr (JStr s') \<longrightarrow>
      wait_until_video_ready E task_id timeout_s poll_s w =
        Some (Inr item',
              w\<lparr>events := events w @ [Sent (AwsResult task_id), video_line task_id (JStr s')],
                clock_reads := Suc (clock_reads w)\<rparr>))"
proof (intro conjI impI)
  assume a: "s \<in> set avatar_terminal_ok \<and>
    remote E (GetAvatar avatar_id) (sent_before w (GetAvatar avatar_id)) = Inr item \<and>
    avatar_status item = Inr (JStr s)"
  let ?w0 = "w\<lparr>clock_reads := Suc (clock_reads w)\<rparr>"
  have "avatar_body E avatar_id timeout_s poll_s (nearest_float (clock E (clock_reads w))) ?w0 =
          (Return item,
           ?w0\<lparr>events := events ?w0 @ [Sent (GetAvatar avatar_id), avatar_line avatar_id (JStr s)]\<rparr>)"
    using a
    by (subst avatar_body_eq [where item = item and status = "JStr s" and ok = True
          and bad = "s \<in> set avatar_terminal_bad"]) simp_all
  then show "wait_until_avatar_ready E avatar_id timeout_s poll_s w =
        Some (Inr item,
              w\<lparr>events := events w @ [Sent (GetAvatar avatar_id), avatar_line avatar_id (JStr s)],
                clock_reads := Suc (clock_reads w)\<rparr>)"
    by (simp add: wait_avatar_unfold while_True_Return)
next
  assume a: "s' \<in> set video_terminal_ok \<and>
    remote E (AwsResult task_id) (sent_before w (AwsResult task_id)) = Inr item' \<and>
    video_status item' = Inr (JStr s')"
  let ?w0 = "w\<lparr>clock_reads := Suc (clock_reads w)\<rparr>"
  have "video_body E task_id timeout_s poll_s (nearest_float (clock E (clock_reads w))) ?w0 =
          (Return item',
           ?w0\<lparr>events := events ?w0 @ [Sent (AwsResult task_id), video_line task_id (JStr s')]\<rparr>)"
    using a
    by (subst video_body_eq [where item = item' and status = "JStr s'" and ok = True
          and bad = "s' \<in> set video_terminal_bad"]) simp_all
  then show "wait_until_video_ready E task_id timeout_s poll_s w =
        Some (Inr item',
              w\<lparr>events := events w @ [Sent (AwsResult task_id), video_line task_id (JStr s')],
                clock_reads := Suc (clock_reads w)\<rparr>)"
    by (simp add: wait_video_unfold while_True_Return)
qed

theorem success_returns_on_first_fetch_witness:
  "''ready'' \<in> set avatar_terminal_ok \<and>
   remote (scripted (steady ''ready'' ''completed'') (\<lambda>n. 0)) (GetAvatar (JStr ''av1''))
     (sent_before fresh (GetAvatar (JStr ''av1''))) = Inr (avatar_reply ''ready'') \<and>
   avatar_status (avatar_reply ''ready'') = Inr (JStr ''ready'') \<and>
   wait_until_avatar_ready (scripted (steady ''ready'' ''completed'') (\<lambda>n. 0)) (JStr ''av1'') 1800 20 fresh =
     Some (Inr (avatar_reply ''ready''),
           \<lparr>events = [Sent (GetAvatar (JStr ''av1'')), avatar_line (JStr ''av1'') (JStr ''ready'')],
            clock_reads = 1\<rparr>) \<and>
   ''completed'' \<in> set video_terminal_ok \<and>
   remote (scripted (steady ''ready'' ''completed'') (\<lambda>n. 0)) (AwsResult (JStr ''t1''))
     (sent_before fresh (AwsResult (JStr ''t1''))) = Inr (video_reply ''completed'') \<and>
   video_status (video_reply ''completed'') = Inr (JStr ''completed'') \<and>
   wait_until_video_ready (scripted (steady ''ready'' ''completed'') (\<lambda>n. 0)) (JStr ''t1'') 1800 20 fresh =
     Some (Inr (video_reply ''completed''),
           \<lparr>events = [Sent (AwsResult (JStr ''t1'')), video_line (JStr ''t1'') (JStr ''completed'')],
            clock_reads = 1\<rparr>)"
  using success_returns_on_first_fetch [where E = "scripted (steady ''ready'' ''completed'') (\<lambda>n. 0)"
      and avatar_id = "JStr ''av1''" and task_id = "JStr ''t1''" and w = fresh
      and item = "avatar_reply ''ready''" and s = "''ready''"
      and item' = "video_reply ''completed''" and s' = "''completed''"
      and timeout_s = 1800 and poll_s = 20]
  by (simp add: scripted_def steady_def avatar_reply_def video_reply_def avatar_status_def
      video_status_def py_or_def avatar_terminal_ok_def video_terminal_ok_def fresh_def)

text \<open>
  C3. When a fetch reports a status of the failure set, the loop ends in that same
  pass with the failure error, which carries the fetched response. This holds for
  the pass of any iteration (the first conjunct of each half is about the loop from
  an arbitrary world on), and so for the first fetch of a call. After the fetch and
  its status line nothing more happens: no sleep, no further fetch.
\<close>

theorem failure_raises_in_same_pass:
  "(s \<in> set avatar_terminal_bad \<and>
    remote E (GetAvatar avatar_id) (sent_before w (GetAvatar avatar_id)) = Inr item \<and>
    avatar_status item = Inr (JStr s) \<longrightarrow>
      while_True (avatar_body E avatar_id timeout_s poll_s start) w =
        Some (Inl (RuntimeError [Lit ''Avatar training failed: '', Dumps item]),
              w\<lparr>events := events w @ [Sent (GetAvatar avatar_id), avatar_line avatar_id (JStr s)]\<rparr>) \<and>
      wait_until_avatar_ready E avatar_id timeout_s poll_s w =
        Some (Inl (RuntimeError [Lit ''Avatar training failed: '', Dumps item]),
              w\<lparr>events := events w @ [Sent (GetAvatar avatar_id), avatar_line avatar_id (JStr s)],
                clock_reads := Suc (clock_reads w)\<rparr>)) \<and>
   (s' \<in> set video_terminal_bad \<and>
    remote E (AwsResult task_id) (sent_before w (AwsResult task_id)) = Inr item' \<and>
    video_status item' = Inr (JStr s') \<longrightarrow>
      while_True (video_body E task_id timeout_s poll_s start) w =
        Some (Inl (RuntimeError [Lit ''Video task failed: '', Dumps item']),
              w\<lparr>events := events w @ [Sent (AwsResult task_id), video_line task_id (JStr s')]\<rparr>) \<and>
      wait_until_video_ready E task_id timeout_s poll_s w =
        Some (Inl (RuntimeError [Lit ''Video task failed: '', Dumps item']),
              w\<lparr>events := events w @ [Sent (AwsResult task_id), video_line task_id (JStr s')],
                clock_reads := Suc (clock_reads w)\<rparr>))"
proof (intro conjI impI)
  assume a: "s \<in> set avatar_terminal_bad \<and>
    remote E (GetAvatar avatar_id) (sent_before w (GetAvatar avatar_id)) = Inr item \<and>
    avatar_status item = Inr (JStr s)"
  then have no: "s \<notin> set avatar_terminal_ok"
    by (auto simp: avatar_terminal_ok_def avatar_terminal_bad_def)
  have body: "avatar_body E avatar_id timeout_s poll_s t v =
          (Raise (RuntimeError [Lit ''Avatar training failed: '', Dumps item]),
           v\<lparr>events := events v @ [Sent (GetAvatar avatar_id), avatar_line avatar_id (JStr s)]\<rparr>)"
    if "sent_before v (GetAvatar avatar_id) = sent_before w (GetAvatar avatar_id)" for t v
    using a no that
    by (subst avatar_body_eq [where item = item and status = "JStr s" and ok = False
          and bad = True]) simp_all
  show "while_True (avatar_body E avatar_id timeout_s poll_s start) w =
        Some (Inl (RuntimeError [Lit ''Avatar training failed: '', Dumps item]),
              w\<lparr>events := events w @ [Sent (GetAvatar avatar_id), avatar_line avatar_id (JStr s)]\<rparr>)"
    by (rule while_True_Raise) (simp add: body)
  show "wait_until_avatar_ready E avatar_id timeout_s poll_s w =
        Some (Inl (RuntimeError [Lit ''Avatar training failed: '', Dumps item]),
              w\<lparr>events := events w @ [Sent (GetAvatar avatar_id), avatar_line avatar_id (JStr s)],
                clock_reads := Suc (clock_reads w)\<rparr>)"
    by (simp add: wait_avatar_unfold while_True_Raise [OF body])
next
  assume a: "s' \<in> set video_terminal_bad \<and>
    remote E (AwsResult task_id) (sent_before w (AwsResult task_id)) = Inr item' \<and>
    video_status item' = Inr (JStr s')"
  then have no: "s' \<notin> set video_terminal_ok"
    by (auto simp: video_terminal_ok_def video_terminal_bad_def)
  have body: "video_body E task_id timeout_s poll_s t v =
          (Raise (RuntimeError [Lit ''Video task failed: '', Dumps item']),
           v\<lparr>events := events v @ [Sent (AwsResult task_id), video_line task_id (JStr s')]\<rparr>)"
    if "sent_before v (AwsResult task_id) = sent_before w (AwsResult task_id)" for t v
    using a no that
    by (subst video_body_eq [where item = item' and status = "JStr s'" and ok = False
          and bad = True]) simp_all
  show "while_True (video_body E task_id timeout_s poll_s start) w =
        Some (Inl (RuntimeError [Lit ''Video task failed: '', Dumps item']),
              w\<lparr>events := events w @ [Sent (AwsResult task_id), video_line task_id (JStr s')]\<rparr>)"
    by (rule while_True_Raise) (simp add: body)
  show "wait_until_video_ready E task_id timeout_s poll_s w =
        Some (Inl (RuntimeError [Lit ''Video task failed: '', Dumps item']),
              w\<lparr>events := events w @ [Sent (AwsResult task_id), video_line task_id (JStr s')],
                clock_reads := Suc (clock_reads w)\<rparr>)"
    by (simp add: wait_video_unfold while_True_Raise [OF body])
qed

theorem failure_raises_in_same_pass_witness:
  "''failed'' \<in> set avatar_terminal_bad \<and>
   remote (scripted (steady ''failed'' ''error'') (\<lambda>n. 0)) (GetAvatar (JStr ''av1''))
     (sent_before fresh (GetAvatar (JStr ''av1''))) = Inr (avatar_reply ''failed'') \<and>
   avatar_status (avatar_reply ''failed'') = Inr (JStr ''failed'') \<and>
   wait_until_avatar_ready (scripted (steady ''failed'' ''error'') (\<lambda>n. 0)) (JStr ''av1'') 1800 20 fresh =
     Some (Inl (RuntimeError [Lit ''Avatar training failed: '', Dumps (avatar_reply ''failed'')]),
           \<lparr>events = [Sent (GetAvatar (JStr ''av1'')), avatar_line (JStr ''av1'') (JStr ''failed'')],
            clock_reads = 1\<rparr>) \<and>
   ''error'' \<in> set video_terminal_bad \<and>
   remote (scripted (steady ''failed'' ''error'') (\<lambda>n. 0)) (AwsResult (JStr ''t1''))
     (sent_before fresh (AwsResult (JStr ''t1''))) = Inr (video_reply ''error'') \<and>
   video_status (video_reply ''error'') = Inr (JStr ''error'') \<and>
   wait_until_video_ready (scripted (steady ''failed'' ''error'') (\<lambda>n. 0)) (JStr ''t1'') 1800 20 fresh =
     Some (Inl (RuntimeError [Lit ''Video task failed: '', Dumps (video_reply ''error'')]),
           \<lparr>events = [Sent (AwsResult (JStr ''t1'')), video_line (JStr ''t1'') (JStr ''error'')],
            clock_reads = 1\<rparr>)"
  using failure_raises_in_same_pass [where E = "scripted (steady ''failed'' ''error'') (\<lambda>n. 0)"
      and avatar_id = "JStr ''av1''" and task_id = "JStr ''t1''" and w = fresh
      and item = "avatar_reply ''failed''" and s = "''failed''"
      and item' = "video_reply ''error''" and s' = "''error''"
      and timeout_s = 1800 and poll_s = 20 and start = "Finite 0"]
  by (simp add: scripted_def steady_def avatar_reply_def video_reply_def avatar_status_def
      video_status_def py_or_def avatar_terminal_bad_def video_terminal_bad_def fresh_def)



text \<open>
  C9. A response without the shape the video poller reads makes it raise one of
  Python's own exceptions: \<open>TypeError\<close> when \<^verbatim>\<open>data\<close> is absent or null, \<open>IndexError\<close> when
  it is an empty list, \<open>KeyError\<close> when its first element is a dict without
  \<^verbatim>\<open>status\<close>. The exception leaves the poller right after the fetch, before anything
  is printed: it is neither the failure error nor the timeout, and the response is
  not taken as pending. The avatar poller reads a response whose \<^verbatim>\<open>data\<close> is absent,
  null or a dict without \<^verbatim>\<open>current_status\<close> as the status \<^verbatim>\<open>None\<close>, which is in neither
  set: the response is pending, and the pass goes on to the deadline test and the
  sleep.
\<close>

theorem video_shape_raises_avatar_shape_pending:
  "(map_of v_absent ''data'' = None \<longrightarrow> video_status (JObj v_absent) = Inl TypeError) \<and>
   (map_of v_null ''data'' = Some JNull \<longrightarrow> video_status (JObj v_null) = Inl TypeError) \<and>
   (map_of v_empty ''data'' = Some (JArr []) \<longrightarrow> video_status (JObj v_empty) = Inl IndexError) \<and>
   (map_of v_nostatus ''data'' = Some (JArr (JObj d # ds)) \<and> map_of d ''status'' = None \<longrightarrow>
      video_status (JObj v_nostatus) = Inl KeyError) \<and>
   (remote E (AwsResult task_id) (sent_before w (AwsResult task_id)) = Inr item \<and>
    video_status item = Inl e \<longrightarrow>
      while_True (video_body E task_id timeout_s poll_s start) w =
        Some (Inl e, w\<lparr>events := events w @ [Sent (AwsResult task_id)]\<rparr>) \<and>
      wait_until_video_ready E task_id timeout_s poll_s w =
        Some (Inl e, w\<lparr>events := events w @ [Sent (AwsResult task_id)],
                       clock_reads := Suc (clock_reads w)\<rparr>) \<and>
      e \<in> {AttributeError, TypeError, IndexError, KeyError} \<and>
      \<not> video_pending (Inr item)) \<and>
   (map_of a_absent ''data'' = None \<longrightarrow>
      avatar_status (JObj a_absent) = Inr JNull \<and> avatar_pending (Inr (JObj a_absent))) \<and>
   (map_of a_null ''data'' = Some JNull \<longrightarrow>
      avatar_status (JObj a_null) = Inr JNull \<and> avatar_pending (Inr (JObj a_null))) \<and>
   (map_of a_nostatus ''data'' = Some (JObj d') \<and> map_of d' ''current_status'' = None \<longrightarrow>
      avatar_status (JObj a_nostatus) = Inr JNull \<and> avatar_pending (Inr (JObj a_nostatus))) \<and>
   (remote E (GetAvatar avatar_id) (sent_before w (GetAvatar avatar_id)) = Inr item' \<and>
    avatar_status item' = Inr JNull \<longrightarrow>
      fst (avatar_body E avatar_id timeout_s poll_s start w) =
        (if timed_out E start timeout_s (clock_reads w)
         then Raise (TimeoutError [Lit ''Timed out waiting for avatar '', Val avatar_id,
                                   Lit '' to be ready''])
         else case fst (sleep E poll_s
                         (w\<lparr>events := events w @ [Sent (GetAvatar avatar_id), avatar_line avatar_id JNull],
                           clock_reads := Suc (clock_reads w)\<rparr>)) of
                Some e \<Rightarrow> Raise e
              | None \<Rightarrow> Next))"
proof (intro conjI impI)
  assume a: "remote E (AwsResult task_id) (sent_before w (AwsResult task_id)) = Inr item \<and>
             video_status item = Inl e"
  have body: "video_body E task_id timeout_s poll_s t v =
                (Raise e, v\<lparr>events := events v @ [Sent (AwsResult task_id)]\<rparr>)"
    if "sent_before v (AwsResult task_id) = sent_before w (AwsResult task_id)" for t v
    using a that by (simp add: video_body_def send_def emit_def)
  show "while_True (video_body E task_id timeout_s poll_s start) w =
          Some (Inl e, w\<lparr>events := events w @ [Sent (AwsResult task_id)]\<rparr>)"
    by (rule while_True_Raise) (simp add: body)
  show "wait_until_video_ready E task_id timeout_s poll_s w =
          Some (Inl e, w\<lparr>events := events w @ [Sent (AwsResult task_id)],
                         clock_reads := Suc (clock_reads w)\<rparr>)"
    by (simp add: wait_video_unfold while_True_Raise [OF body])
  from a show "e \<in> {AttributeError, TypeError, IndexError, KeyError}"
    by (auto dest: video_status_Inl)
  from a show "\<not> video_pending (Inr item)"
    by (simp add: video_pending_def)
next
  assume a: "remote E (GetAvatar avatar_id) (sent_before w (GetAvatar avatar_id)) = Inr item' \<and>
             avatar_status item' = Inr JNull"
  then show "fst (avatar_body E avatar_id timeout_s poll_s start w) =
        (if timed_out E start timeout_s (clock_reads w)
         then Raise (TimeoutError [Lit ''Timed out waiting for avatar '', Val avatar_id,
                                   Lit '' to be ready''])
         else case fst (sleep E poll_s
                         (w\<lparr>events := events w @ [Sent (GetAvatar avatar_id), avatar_line avatar_id JNull],
                           clock_reads := Suc (clock_reads w)\<rparr>)) of
                Some e \<Rightarrow> Raise e
              | None \<Rightarrow> Next)"
    by (subst avatar_body_eq [where item = item' and status = JNull and ok = False and bad = False])
      (simp_all add: Let_def split: prod.splits option.splits)
qed (simp_all add: video_status_def avatar_status_def avatar_pending_def py_or_def)

theorem video_shape_raises_avatar_shape_pending_witness:
  "map_of [(''code'', JInt 0)] ''data'' = None \<and>
   video_status (JObj [(''code'', JInt 0)]) = Inl TypeError \<and>
   map_of [(''data'', JNull)] ''data'' = Some JNull \<and>
   video_status (JObj [(''data'', JNull)]) = Inl TypeError \<and>
   map_of [(''data'', JArr [])] ''data'' = Some (JArr []) \<and>
   video_status (JObj [(''data'', JArr [])]) = Inl IndexError \<and>
   map_of [(''data'', JArr [JObj [(''result'', JStr ''x'')]])] ''data'' =
     Some (JArr [JObj [(''result'', JStr ''x'')]]) \<and>
   map_of [(''result'', JStr ''x'')] ''status'' = None \<and>
   video_status (JObj [(''data'', JArr [JObj [(''result'', JStr ''x'')]])]) = Inl KeyError \<and>
   remote shapeless (AwsResult (JStr ''t1'')) (sent_before fresh (AwsResult (JStr ''t1''))) =
     Inr (JObj [(''code'', JInt 0)]) \<and>
   wait_until_video_ready shapeless (JStr ''t1'') 1800 20 fresh =
     Some (Inl TypeError, \<lparr>events = [Sent (AwsResult (JStr ''t1''))], clock_reads = 1\<rparr>) \<and>
   \<not> video_pending (Inr (JObj [(''code'', JInt 0)])) \<and>
   avatar_status (JObj [(''code'', JInt 0)]) = Inr JNull \<and>
   avatar_pending (Inr (JObj [(''code'', JInt 0)])) \<and>
   avatar_status (JObj [(''data'', JNull)]) = Inr JNull \<and>
   avatar_pending (Inr (JObj [(''data'', JNull)])) \<and>
   map_of [(''data'', JObj [(''_id'', JStr ''av1'')])] ''data'' = Some (JObj [(''_id'', JStr ''av1'')]) \<and>
   map_of [(''_id'', JStr ''av1'')] ''current_status'' = None \<and>
   avatar_status (JObj [(''data'', JObj [(''_id'', JStr ''av1'')])]) = Inr JNull \<and>
   avatar_pending (Inr (JObj [(''data'', JObj [(''_id'', JStr ''av1'')])])) \<and>
   remote shapeless (GetAvatar (JStr ''av1'')) (sent_before fresh (GetAvatar (JStr ''av1''))) =
     Inr (JObj [(''code'', JInt 0)]) \<and>
   \<not> timed_out shapeless (Finite 0) 1800 (clock_reads fresh) \<and>
   fst (avatar_body shapeless (JStr ''av1'') 1800 20 (Finite 0) fresh) = Next"
  using video_shape_raises_avatar_shape_pending [where v_absent = "[(''code'', JInt 0)]"
      and v_null = "[(''data'', JNull)]" and v_empty = "[(''data'', JArr [])]"
      and v_nostatus = "[(''data'', JArr [JObj [(''result'', JStr ''x'')]])]"
      and d = "[(''result'', JStr ''x'')]" and ds = "[]"
      and E = shapeless and task_id = "JStr ''t1''" and w = fresh
      and item = "JObj [(''code'', JInt 0)]" and e = TypeError
      and a_absent = "[(''code'', JInt 0)]" and a_null = "[(''data'', JNull)]"
      and a_nostatus = "[(''data'', JObj [(''_id'', JStr ''av1'')])]"
      and d' = "[(''_id'', JStr ''av1'')]" and avatar_id = "JStr ''av1''"
      and item' = "JObj [(''code'', JInt 0)]"
      and timeout_s = 1800 and poll_s = 20 and start = "Finite 0"]
  by (simp add: shapeless_def scripted_def video_status_def avatar_status_def py_or_def
      timed_out_def sleep_def fresh_def)

text \<open>
  C10. Both pollers look at the fetched status before they look at the clock. Every
  pass of a loop body begins with the fetch, so every run that ends has fetched
  first, whatever the timeout, zero included. When the deadline test would hold at
  the next reading of the clock, a fetch that reports a status of the success set
  still makes the loop return the response, and one that reports a status of the
  failure set still makes it raise the failure error: the clock is not read in such
  a pass. A run that ends with the timeout error ends with a fetch and the line of
  a status that is in neither set.
\<close>

theorem status_classified_before_deadline:
  "(\<exists>tr. events (snd (avatar_body E avatar_id timeout_s poll_s start v)) = events v @ Sent (GetAvatar avatar_id) # tr) \<and>
   (wait_until_avatar_ready E avatar_id timeout_s poll_s w = Some (res_a, w_a) \<longrightarrow>
      (\<exists>tr. events w_a = events w @ Sent (GetAvatar avatar_id) # tr)) \<and>
   (remote E (GetAvatar avatar_id) (sent_before v (GetAvatar avatar_id)) = Inr item_a \<and>
    avatar_status item_a = Inr (JStr s_a) \<and> timed_out E start timeout_s (clock_reads v) \<longrightarrow>
      (s_a \<in> set avatar_terminal_ok \<longrightarrow>
         while_True (avatar_body E avatar_id timeout_s poll_s start) v =
           Some (Inr item_a,
                 v\<lparr>events := events v @ [Sent (GetAvatar avatar_id), avatar_line avatar_id (JStr s_a)]\<rparr>)) \<and>
      (s_a \<in> set avatar_terminal_bad \<longrightarrow>
         while_True (avatar_body E avatar_id timeout_s poll_s start) v =
           Some (Inl (RuntimeError [Lit ''Avatar training failed: '', Dumps item_a]),
                 v\<lparr>events := events v @ [Sent (GetAvatar avatar_id), avatar_line avatar_id (JStr s_a)]\<rparr>))) \<and>
   (while_True (avatar_body E avatar_id timeout_s poll_s start) v = Some (Inl (TimeoutError m_a), v_a) \<longrightarrow>
      (\<exists>tr st. events v_a = events v @ tr @ [Sent (GetAvatar avatar_id), avatar_line avatar_id st] \<and>
               py_in st avatar_terminal_ok = Inr False \<and> py_in st avatar_terminal_bad = Inr False)) \<and>
   (\<exists>tr. events (snd (video_body E task_id timeout_s poll_s start v)) = events v @ Sent (AwsResult task_id) # tr) \<and>
   (wait_until_video_ready E task_id timeout_s poll_s w = Some (res_v, w_v) \<longrightarrow>
      (\<exists>tr. events w_v = events w @ Sent (AwsResult task_id) # tr)) \<and>
   (remote E (AwsResult task_id) (sent_before v (AwsResult task_id)) = Inr item_v \<and>
    video_status item_v = Inr (JStr s_v) \<and> timed_out E start timeout_s (clock_reads v) \<longrightarrow>
      (s_v \<in> set video_terminal_ok \<longrightarrow>
         while_True (video_body E task_id timeout_s poll_s start) v =
           Some (Inr item_v,
                 v\<lparr>events := events v @ [Sent (AwsResult task_id), video_line task_id (JStr s_v)]\<rparr>)) \<and>
      (s_v \<in> set video_terminal_bad \<longrightarrow>
         while_True (video_body E task_id timeout_s poll_s start) v =
           Some (Inl (RuntimeError [Lit ''Video task failed: '', Dumps item_v]),
                 v\<lparr>events := events v @ [Sent (AwsResult task_id), video_line task_id (JStr s_v)]\<rparr>))) \<and>
   (while_True (video_body E task_id timeout_s poll_s start) v = Some (Inl (TimeoutError m_v), v_v) \<longrightarrow>
      (\<exists>tr st. events v_v = events v @ tr @ [Sent (AwsResult task_id), video_line task_id st] \<and>
               py_in st video_terminal_ok = Inr False \<and> py_in st video_terminal_bad = Inr False))"
proof (intro conjI impI)
  show "\<exists>tr. events (snd (avatar_body E avatar_id timeout_s poll_s start v)) = events v @ Sent (GetAvatar avatar_id) # tr"
    using avatar_body_first_event [of E avatar_id timeout_s poll_s start v] by (metis prod.collapse)
next
  assume "wait_until_avatar_ready E avatar_id timeout_s poll_s w = Some (res_a, w_a)"
  then show "\<exists>tr. events w_a = events w @ Sent (GetAvatar avatar_id) # tr"
    by (auto simp: wait_avatar_unfold dest!: avatar_run_first_event)
next
  assume a: "remote E (GetAvatar avatar_id) (sent_before v (GetAvatar avatar_id)) = Inr item_a \<and>
    avatar_status item_a = Inr (JStr s_a) \<and> timed_out E start timeout_s (clock_reads v)"
    and s: "s_a \<in> set avatar_terminal_ok"
  have "avatar_body E avatar_id timeout_s poll_s start v =
          (Return item_a, v\<lparr>events := events v @ [Sent (GetAvatar avatar_id), avatar_line avatar_id (JStr s_a)]\<rparr>)"
    using a s
    by (subst avatar_body_eq [where item = item_a and status = "JStr s_a" and ok = True
          and bad = "s_a \<in> set avatar_terminal_bad"]) simp_all
  then show "while_True (avatar_body E avatar_id timeout_s poll_s start) v =
           Some (Inr item_a,
                 v\<lparr>events := events v @ [Sent (GetAvatar avatar_id), avatar_line avatar_id (JStr s_a)]\<rparr>)"
    by (rule while_True_Return)
next
  assume a: "remote E (GetAvatar avatar_id) (sent_before v (GetAvatar avatar_id)) = Inr item_a \<and>
    avatar_status item_a = Inr (JStr s_a) \<and> timed_out E start timeout_s (clock_reads v)"
    and s: "s_a \<in> set avatar_terminal_bad"
  then have no: "s_a \<notin> set avatar_terminal_ok"
    by (auto simp: avatar_terminal_ok_def avatar_terminal_bad_def)
  have "avatar_body E avatar_id timeout_s poll_s start v =
          (Raise (RuntimeError [Lit ''Avatar training failed: '', Dumps item_a]),
           v\<lparr>events := events v @ [Sent (GetAvatar avatar_id), avatar_line avatar_id (JStr s_a)]\<rparr>)"
    using a s no
    by (subst avatar_body_eq [where item = item_a and status = "JStr s_a" and ok = False
          and bad = True]) simp_all
  then show "while_True (avatar_body E avatar_id timeout_s poll_s start) v =
           Some (Inl (RuntimeError [Lit ''Avatar training failed: '', Dumps item_a]),
                 v\<lparr>events := events v @ [Sent (GetAvatar avatar_id), avatar_line avatar_id (JStr s_a)]\<rparr>)"
    by (rule while_True_Raise)
next
  assume "while_True (avatar_body E avatar_id timeout_s poll_s start) v = Some (Inl (TimeoutError m_a), v_a)"
  from avatar_run_timeout [OF this]
  show "\<exists>tr st. events v_a = events v @ tr @ [Sent (GetAvatar avatar_id), avatar_line avatar_id st] \<and>
               py_in st avatar_terminal_ok = Inr False \<and> py_in st avatar_terminal_bad = Inr False"
    by blast
next
  show "\<exists>tr. events (snd (video_body E task_id timeout_s poll_s start v)) = events v @ Sent (AwsResult task_id) # tr"
    using video_body_first_event [of E task_id timeout_s poll_s start v] by (metis prod.collapse)
next
  assume "wait_until_video_ready E task_id timeout_s poll_s w = Some (res_v, w_v)"
  then show "\<exists>tr. events w_v = events w @ Sent (AwsResult task_id) # tr"
    by (auto simp: wait_video_unfold dest!: video_run_first_event)
next
  assume a: "remote E (AwsResult task_id) (sent_before v (AwsResult task_id)) = Inr item_v \<and>
    video_status item_v = Inr (JStr s_v) \<and> timed_out E start timeout_s (clock_reads v)"
    and s: "s_v \<in> set video_terminal_ok"
  have "video_body E task_id timeout_s poll_s start v =
          (Return item_v, v\<lparr>events := events v @ [Sent (AwsResult task_id), video_line task_id (JStr s_v)]\<rparr>)"
    using a s
    by (subst video_body_eq [where item = item_v and status = "JStr s_v" and ok = True
          and bad = "s_v \<in> set video_terminal_bad"]) simp_all
  then show "while_True (video_body E task_id timeout_s poll_s start) v =
           Some (Inr item_v,
                 v\<lparr>events := events v @ [Sent (AwsResult task_id), video_line task_id (JStr s_v)]\<rparr>)"
    by (rule while_True_Return)
next
  assume a: "remote E (AwsResult task_id) (sent_before v (AwsResult task_id)) = Inr item_v \<and>
    video_status item_v = Inr (JStr s_v) \<and> timed_out E start timeout_s (clock_reads v)"
    and s: "s_v \<in> set video_terminal_bad"
  then have no: "s_v \<notin> set video_terminal_ok"
    by (auto simp: video_terminal_ok_def video_terminal_bad_def)
  have "video_body E task_id timeout_s poll_s start v =
          (Raise (RuntimeError [Lit ''Video task failed: '', Dumps item_v]),
           v\<lparr>events := events v @ [Sent (AwsResult task_id), video_line task_id (JStr s_v)]\<rparr>)"
    using a s no
    by (subst video_body_eq [where item = item_v and status = "JStr s_v" and ok = False
          and bad = True]) simp_all
  then show "while_True (video_body E task_id timeout_s poll_s start) v =
           Some (Inl (RuntimeError [Lit ''Video task failed: '', Dumps item_v]),
                 v\<lparr>events := events v @ [Sent (AwsResult task_id), video_line task_id (JStr s_v)]\<rparr>)"
    by (rule while_True_Raise)
next
  assume "while_True (video_body E task_id timeout_s poll_s start) v = Some (Inl (TimeoutError m_v), v_v)"
  from video_run_timeout [OF this]
  show "\<exists>tr st. events v_v = events v @ tr @ [Sent (AwsResult task_id), video_line task_id st] \<and>
               py_in st video_terminal_ok = Inr False \<and> py_in st video_terminal_bad = Inr False"
    by blast
qed

theorem status_classified_before_deadline_witness:
  "wait_until_avatar_ready (steadily ''ready'' ''completed'') (JStr ''av1'') 0 20 fresh =
     Some (Inr (avatar_reply ''ready''),
           \<lparr>events = [Sent (GetAvatar (JStr ''av1'')), avatar_line (JStr ''av1'') (JStr ''ready'')], clock_reads = 1\<rparr>) \<and>
   (\<exists>tr. [Sent (GetAvatar (JStr ''av1'')), avatar_line (JStr ''av1'') (JStr ''ready'')] = events fresh @ Sent (GetAvatar (JStr ''av1'')) # tr) \<and>
   remote (steadily ''ready'' ''completed'') (GetAvatar (JStr ''av1'')) (sent_before late (GetAvatar (JStr ''av1''))) = Inr (avatar_reply ''ready'') \<and>
   avatar_status (avatar_reply ''ready'') = Inr (JStr ''ready'') \<and>
   timed_out (steadily ''ready'' ''completed'') (Finite 0) 0 (clock_reads late) \<and>
   ''ready'' \<in> set avatar_terminal_ok \<and>
   while_True (avatar_body (steadily ''ready'' ''completed'') (JStr ''av1'') 0 20 (Finite 0)) late =
     Some (Inr (avatar_reply ''ready''),
           \<lparr>events = [Sent (GetAvatar (JStr ''av1'')), avatar_line (JStr ''av1'') (JStr ''ready'')], clock_reads = 1\<rparr>) \<and>
   remote (steadily ''failed'' ''error'') (GetAvatar (JStr ''av1'')) (sent_before late (GetAvatar (JStr ''av1''))) = Inr (avatar_reply ''failed'') \<and>
   avatar_status (avatar_reply ''failed'') = Inr (JStr ''failed'') \<and>
   timed_out (steadily ''failed'' ''error'') (Finite 0) 0 (clock_reads late) \<and>
   ''failed'' \<in> set avatar_terminal_bad \<and>
   while_True (avatar_body (steadily ''failed'' ''error'') (JStr ''av1'') 0 20 (Finite 0)) late =
     Some (Inl (RuntimeError [Lit ''Avatar training failed: '', Dumps (avatar_reply ''failed'')]),
           \<lparr>events = [Sent (GetAvatar (JStr ''av1'')), avatar_line (JStr ''av1'') (JStr ''failed'')], clock_reads = 1\<rparr>) \<and>
   while_True (avatar_body stuck (JStr ''av1'') 0 20 (Finite 0)) late =
     Some (Inl (TimeoutError [Lit ''Timed out waiting for avatar '', Val (JStr ''av1''), Lit '' to be ready'']),
           \<lparr>events = [Sent (GetAvatar (JStr ''av1'')), avatar_line (JStr ''av1'') (JStr ''training'')], clock_reads = 2\<rparr>) \<and>
   (\<exists>tr st. [Sent (GetAvatar (JStr ''av1'')), avatar_line (JStr ''av1'') (JStr ''training'')] =
              events late @ tr @ [Sent (GetAvatar (JStr ''av1'')), avatar_line (JStr ''av1'') st] \<and>
            py_in st avatar_terminal_ok = Inr False \<and> py_in st avatar_terminal_bad = Inr False) \<and>
   wait_until_video_ready (steadily ''ready'' ''completed'') (JStr ''t1'') 0 20 fresh =
     Some (Inr (video_reply ''completed''),
           \<lparr>events = [Sent (AwsResult (JStr ''t1'')), video_line (JStr ''t1'') (JStr ''completed'')], clock_reads = 1\<rparr>) \<and>
   (\<exists>tr. [Sent (AwsResult (JStr ''t1'')), video_line (JStr ''t1'') (JStr ''completed'')] = events fresh @ Sent (AwsResult (JStr ''t1'')) # tr) \<and>
   remote (steadily ''ready'' ''completed'') (AwsResult (JStr ''t1'')) (sent_before late (AwsResult (JStr ''t1''))) = Inr (video_reply ''completed'') \<and>
   video_status (video_reply ''completed'') = Inr (JStr ''completed'') \<and>
   timed_out (steadily ''ready'' ''completed'') (Finite 0) 0 (clock_reads late) \<and>
   ''completed'' \<in> set video_terminal_ok \<and>
   while_True (video_body (steadily ''ready'' ''completed'') (JStr ''t1'') 0 20 (Finite 0)) late =
     Some (Inr (video_reply ''completed''),
           \<lparr>events = [Sent (AwsResult (JStr ''t1'')), video_line (JStr ''t1'') (JStr ''completed'')], clock_reads = 1\<rparr>) \<and>
   remote (steadily ''failed'' ''error'') (AwsResult (JStr ''t1'')) (sent_before late (AwsResult (JStr ''t1''))) = Inr (video_reply ''error'') \<and>
   video_status (video_reply ''error'') = Inr (JStr ''error'') \<and>
   timed_out (steadily ''failed'' ''error'') (Finite 0) 0 (clock_reads late) \<and>
   ''error'' \<in> set video_terminal_bad \<and>
   while_True (video_body (steadily ''failed'' ''error'') (JStr ''t1'') 0 20 (Finite 0)) late =
     Some (Inl (RuntimeError [Lit ''Video task failed: '', Dumps (video_reply ''error'')]),
           \<lparr>events = [Sent (AwsResult (JStr ''t1'')), video_line (JStr ''t1'') (JStr ''error'')], clock_reads = 1\<rparr>) \<and>
   while_True (video_body stuck (JStr ''t1'') 0 20 (Finite 0)) late =
     Some (Inl (TimeoutError [Lit ''Timed out waiting for video task '', Val (JStr ''t1''), Lit '' to be ready'']),
           \<lparr>events = [Sent (AwsResult (JStr ''t1'')), video_line (JStr ''t1'') (JStr ''processing'')], clock_reads = 2\<rparr>) \<and>
   (\<exists>tr st. [Sent (AwsResult (JStr ''t1'')), video_line (JStr ''t1'') (JStr ''processing'')] =
              events late @ tr @ [Sent (AwsResult (JStr ''t1'')), video_line (JStr ''t1'') st] \<and>
            py_in st video_terminal_ok = Inr False \<and> py_in st video_terminal_bad = Inr False)"
proof -
  note defs = steadily_def stuck_def scripted_def steady_def avatar_reply_def video_reply_def
    avatar_status_def video_status_def py_or_def avatar_terminal_ok_def avatar_terminal_bad_def
    video_terminal_ok_def video_terminal_bad_def fresh_def late_def
  note t = timed_out_def nearest_float_of_int [of 40, simplified] Let_def
  have run_a: "wait_until_avatar_ready (steadily ''ready'' ''completed'') (JStr ''av1'') 0 20 fresh =
     Some (Inr (avatar_reply ''ready''),
           \<lparr>events = [Sent (GetAvatar (JStr ''av1'')), avatar_line (JStr ''av1'') (JStr ''ready'')], clock_reads = 1\<rparr>)"
    unfolding wait_avatar_unfold
    by (rule while_True_Return,
        subst avatar_body_eq [where item = "avatar_reply ''ready''" and status = "JStr ''ready''"
          and ok = True and bad = False])
      (simp_all add: defs)
  have out_a: "while_True (avatar_body stuck (JStr ''av1'') 0 20 (Finite 0)) late =
     Some (Inl (TimeoutError [Lit ''Timed out waiting for avatar '', Val (JStr ''av1''), Lit '' to be ready'']),
           \<lparr>events = [Sent (GetAvatar (JStr ''av1'')), avatar_line (JStr ''av1'') (JStr ''training'')], clock_reads = 2\<rparr>)"
    by (rule while_True_Raise,
        subst avatar_body_eq [where item = "avatar_reply ''training''" and status = "JStr ''training''"
          and ok = False and bad = False])
      (simp_all add: defs t)
  have run_v: "wait_until_video_ready (steadily ''ready'' ''completed'') (JStr ''t1'') 0 20 fresh =
     Some (Inr (video_reply ''completed''),
           \<lparr>events = [Sent (AwsResult (JStr ''t1'')), video_line (JStr ''t1'') (JStr ''completed'')], clock_reads = 1\<rparr>)"
    unfolding wait_video_unfold
    by (rule while_True_Return,
        subst video_body_eq [where item = "video_reply ''completed''" and status = "JStr ''completed''"
          and ok = True and bad = False])
      (simp_all add: defs)
  have out_v: "while_True (video_body stuck (JStr ''t1'') 0 20 (Finite 0)) late =
     Some (Inl (TimeoutError [Lit ''Timed out waiting for video task '', Val (JStr ''t1''), Lit '' to be ready'']),
           \<lparr>events = [Sent (AwsResult (JStr ''t1'')), video_line (JStr ''t1'') (JStr ''processing'')], clock_reads = 2\<rparr>)"
    by (rule while_True_Raise,
        subst video_body_eq [where item = "video_reply ''processing''" and status = "JStr ''processing''"
          and ok = False and bad = False])
      (simp_all add: defs t)
  show ?thesis
    using status_classified_before_deadline [where E = "steadily ''ready'' ''completed''" and avatar_id = "JStr ''av1''"
      and task_id = "JStr ''t1''" and timeout_s = 0 and poll_s = 20 and start = "Finite 0"
      and w = fresh and v = late
      and item_a = "avatar_reply ''ready''" and s_a = "''ready''" and item_v = "video_reply ''completed''" and s_v = "''completed''"
      and res_a = "Inr (avatar_reply ''ready'')"
      and w_a = "\<lparr>events = [Sent (GetAvatar (JStr ''av1'')), avatar_line (JStr ''av1'') (JStr ''ready'')], clock_reads = 1\<rparr>"
      and res_v = "Inr (video_reply ''completed'')"
      and w_v = "\<lparr>events = [Sent (AwsResult (JStr ''t1'')), video_line (JStr ''t1'') (JStr ''completed'')], clock_reads = 1\<rparr>"]
      status_classified_before_deadline [where E = "steadily ''failed'' ''error''" and avatar_id = "JStr ''av1''"
      and task_id = "JStr ''t1''" and timeout_s = 0 and poll_s = 20 and start = "Finite 0"
      and w = fresh and v = late
      and item_a = "avatar_reply ''failed''" and s_a = "''failed''" and item_v = "video_reply ''error''" and s_v = "''error''"]
      status_classified_before_deadline [where E = "stuck" and avatar_id = "JStr ''av1''"
      and task_id = "JStr ''t1''" and timeout_s = 0 and poll_s = 20 and start = "Finite 0"
      and w = fresh and v = late
      and item_a = "avatar_reply ''training''" and s_a = "''training''" and item_v = "video_reply ''processing''" and s_v = "''processing''"
      and m_a = "[Lit ''Timed out waiting for avatar '', Val (JStr ''av1''), Lit '' to be ready'']"
      and v_a = "\<lparr>events = [Sent (GetAvatar (JStr ''av1'')), avatar_line (JStr ''av1'') (JStr ''training'')], clock_reads = 2\<rparr>"
      and m_v = "[Lit ''Timed out waiting for video task '', Val (JStr ''t1''), Lit '' to be ready'']"
      and v_v = "\<lparr>events = [Sent (AwsResult (JStr ''t1'')), video_line (JStr ''t1'') (JStr ''processing'')], clock_reads = 2\<rparr>"]
      run_a run_v out_a out_v
    by (simp add: defs t)
qed

end
